theory Spec2Isabelle
  imports Complex_Main "HOL-Library.Char_ord" "HOL-Library.List_Lexorder"
    "HOL-Library.Product_Lexorder"
begin

section \<open>Data model\<close>

text \<open>
  The backend keeps uploaded CSV files in a flat directory and reads them back with
  pandas. A cell of a parsed file is a number, a string, or the missing value NaN.
  A data frame has the list of its column names and its rows; a row gives the cell of
  every column name. Floating-point numbers are idealised as reals (rounding and
  overflow are outside the model).
\<close>

datatype cell = CNum real | CStr string | CNaN

record dataframe =
  columns :: "string list"
  rows :: "(string \<Rightarrow> cell) list"

text \<open>The exceptions the handlers can meet, and the HTTP errors they raise.\<close>

datatype exn =
    ParserError
  | MissingColumns "string list"   \<comment> \<open>ValueError("Missing required columns. Found: ...")\<close>
  | NegativeValues                 \<comment> \<open>ValueError("'units_sold' and 'price' cannot contain negative values.")\<close>
  | TypeError
  | KeyError string
  | DateParseError
  | FitError
  | OSError                        \<comment> \<open>\<^verbatim>\<open>open\<close> cannot create the file (FileNotFoundError and the like)\<close>
  | NotJsonCompliant               \<comment> \<open>ValueError of the JSON encoder on a NaN in the response\<close>

datatype detail =
    InvalidFileType                \<comment> \<open>"Invalid file type. Please upload a CSV file."\<close>
  | CsvValidationError exn         \<comment> \<open>"CSV Validation Error: <e>"\<close>
  | FileNotFound                   \<comment> \<open>"File not found. Please upload it again."\<close>
  | ProductNotFound string         \<comment> \<open>"Product ID '<product_id>' not found."\<close>
  | NotEnoughData                  \<comment> \<open>"Not enough data. A minimum of 30 data points is required."\<close>
  | NotEnoughDataToExport          \<comment> \<open>"Not enough data to export."\<close>

datatype error =
    HTTPException nat detail
  | Unhandled exn                  \<comment> \<open>an exception no handler catches: a 500 response\<close>

text \<open>
  The bytes of a file are represented by what \<^verbatim>\<open>pd.read_csv\<close> makes of them: text
  that does not parse, or a data frame.
\<close>

datatype file_bytes = Unparsable | Csv dataframe

fun read_csv :: "file_bytes \<Rightarrow> exn + dataframe" where
  "read_csv Unparsable = Inl ParserError"
| "read_csv (Csv df) = Inr df"

type_synonym storage = "string \<rightharpoonup> file_bytes"

section \<open>Paths\<close>

definition UPLOAD_DIRECTORY :: string where
  "UPLOAD_DIRECTORY = ''./uploads''"

fun digit_char :: "nat \<Rightarrow> char" where
  "digit_char n = ''0123456789'' ! (n mod 10)"

fun str_nat :: "nat \<Rightarrow> string" where
  "str_nat n = (if n < 10 then [digit_char n] else str_nat (n div 10) @ [digit_char n])"

declare str_nat.simps [simp del]

definition str_int :: "int \<Rightarrow> string" where
  "str_int i = (if i < 0 then CHR ''-'' # str_nat (nat (- i)) else str_nat (nat i))"

definition endswith :: "string \<Rightarrow> string \<Rightarrow> bool" where
  "endswith s suffix = (length suffix \<le> length s \<and> drop (length s - length suffix) s = suffix)"

text \<open>\<^verbatim>\<open>os.path.join(UPLOAD_DIRECTORY, f"user_{current_user.id}_{filename}")\<close>; the second
  component starts with a letter, so the join is the directory, a slash and the name.\<close>

definition file_path :: "int \<Rightarrow> string \<Rightarrow> string" where
  "file_path user_id filename = UPLOAD_DIRECTORY @ ''/'' @ ''user_'' @ str_int user_id @ ''_'' @ filename"

section \<open>Upload and validation\<close>

definition column :: "dataframe \<Rightarrow> string \<Rightarrow> cell list" where
  "column df c = map (\<lambda>r. r c) (rows df)"

text \<open>\<^verbatim>\<open>Series.lt(0).any()\<close>: comparing a string with 0 raises TypeError, NaN compares
  False.\<close>

fun is_str :: "cell \<Rightarrow> bool" where
  "is_str (CStr s) = True"
| "is_str c = False"

fun cell_lt :: "cell \<Rightarrow> real \<Rightarrow> bool" where
  "cell_lt (CNum x) c = (x < c)"
| "cell_lt v c = False"

definition lt_any :: "cell list \<Rightarrow> real \<Rightarrow> exn + bool" where
  "lt_any cs c = (if list_ex is_str cs then Inl TypeError else Inr (list_ex (\<lambda>v. cell_lt v c) cs))"

definition required_columns :: "string list" where
  "required_columns = [''date'', ''product_id'', ''units_sold'', ''price'']"

text \<open>The body of the \<^verbatim>\<open>try\<close> block of \<^verbatim>\<open>upload_csv\<close>; \<^verbatim>\<open>or\<close> evaluates the price
  column only when no units_sold value is negative.\<close>

definition validate :: "file_bytes \<Rightarrow> exn + dataframe" where
  "validate content =
     (case read_csv content of
        Inl e \<Rightarrow> Inl e
      | Inr df \<Rightarrow>
          if \<not> list_all (\<lambda>c. c \<in> set (columns df)) required_columns
          then Inl (MissingColumns (columns df))
          else (case lt_any (column df ''units_sold'') 0 of
                  Inl e \<Rightarrow> Inl e
                | Inr True \<Rightarrow> Inl NegativeValues
                | Inr False \<Rightarrow>
                    (case lt_any (column df ''price'') 0 of
                       Inl e \<Rightarrow> Inl e
                     | Inr True \<Rightarrow> Inl NegativeValues
                     | Inr False \<Rightarrow> Inr df)))"

text \<open>\<^verbatim>\<open>Series.unique()\<close>: the distinct values in order of first appearance.\<close>

definition unique :: "'a list \<Rightarrow> 'a list" where
  "unique xs = rev (remdups (rev xs))"

record upload_response =
  message :: string
  filename :: string
  products :: "cell list"

fun is_nan :: "cell \<Rightarrow> bool" where
  "is_nan CNaN = True"
| "is_nan c = False"

text \<open>
  The handler takes the storage and returns the response with the storage it leaves.
  \<^item> \<^verbatim>\<open>open(file_path, "wb")\<close> stands before the \<^verbatim>\<open>try\<close>: when the file cannot be
    created (a name with a slash points into a directory that does not exist), the
    exception is not handled and nothing is written. \<open>can_open\<close> is the answer of the
    file system for a path that holds no file yet; a file that exists is opened again.
  \<^item> The dictionary the handler returns is encoded as JSON by the framework, which
    refuses NaN: a missing product id among the products ends in an unhandled
    exception after the file has been stored.
\<close>

definition upload_csv ::
  "(string \<Rightarrow> bool) \<Rightarrow> storage \<Rightarrow> int \<Rightarrow> string \<Rightarrow> file_bytes
     \<Rightarrow> (error + upload_response) \<times> storage" where
  "upload_csv can_open st user_id fname content =
     (if \<not> endswith fname ''.csv'' then (Inl (HTTPException 400 InvalidFileType), st)
      else
        let path = file_path user_id fname in
        if st path = None \<and> \<not> can_open path then (Inl (Unhandled OSError), st)
        else
          let st1 = st(path \<mapsto> content)
          in (case validate (the (st1 path)) of
                Inl e \<Rightarrow> (Inl (HTTPException 400 (CsvValidationError e)), st1(path := None))
              | Inr df \<Rightarrow>
                  let products = unique (column df ''product_id'')
                  in if list_ex is_nan products then (Inl (Unhandled NotJsonCompliant), st1)
                     else (Inr \<lparr>message = ''CSV validated and saved successfully!'',
                                filename = fname,
                                products = products\<rparr>, st1)))"

section \<open>External library functions\<close>

text \<open>
  Values of a datetime column are pandas timestamps (an integer count of time units
  since the epoch) or the missing value NaT. \<^verbatim>\<open>pd.to_datetime\<close>, \<^verbatim>\<open>strftime\<close>,
  Python's float formatting and the forecasting library are not part of the repository:
  the handlers take them as parameters.
  \<^item> \<open>to_datetime\<close> parses one cell of the date column, or raises;
  \<^item> \<open>strftime\<close> renders a timestamp with the format \<^verbatim>\<open>%Y-%m-%d\<close>;
  \<^item> \<open>prophet daily_seasonality history periods\<close> stands for
    \<^verbatim>\<open>m = Prophet(daily_seasonality=..); m.fit(history);
    m.predict(m.make_future_dataframe(periods=..))\<close>, and may raise.
\<close>

datatype datetime = Timestamp int | NaT

record forecast_row =
  ds :: int
  yhat :: real
  yhat_lower :: real
  yhat_upper :: real

type_synonym history = "(datetime \<times> cell) list"

type_synonym forecaster = "bool \<Rightarrow> history \<Rightarrow> nat \<Rightarrow> exn + forecast_row list"

text \<open>A date as a handler returns it: the datetime object itself, or formatted text.\<close>

datatype date_field = DatetimeValue datetime | Formatted string

fun sequence :: "(exn + 'a) list \<Rightarrow> exn + 'a list" where
  "sequence [] = Inr []"
| "sequence (x # xs) =
     (case x of
        Inl e \<Rightarrow> Inl e
      | Inr v \<Rightarrow> (case sequence xs of Inl e \<Rightarrow> Inl e | Inr vs \<Rightarrow> Inr (v # vs)))"

text \<open>\<^verbatim>\<open>Series.tail(n)\<close>: the last \<open>n\<close> elements, all of them when there are fewer.\<close>

definition tail :: "nat \<Rightarrow> 'a list \<Rightarrow> 'a list" where
  "tail n xs = drop (length xs - n) xs"

section \<open>Analysis\<close>

text \<open>
  The product of two numeric columns and the sum of the values of a group are computed
  by the library in the arithmetic of the columns (binary64 for floats), which rounds.
  The model does not compute them: the product of two numbers and the sum of a list of
  numbers, in the order of the rows, are parameters.
\<close>

record column_ops =
  c_prod :: "real \<Rightarrow> real \<Rightarrow> real"
  c_sum :: "real list \<Rightarrow> real"

text \<open>
  \<^verbatim>\<open>df.groupby(key)[value].sum()\<close>: rows whose key is missing are dropped, the groups
  come in ascending key order, and a sum skips missing values. The keys are ordered
  through \<open>f\<close>.
\<close>

definition groupby_sum ::
  "column_ops \<Rightarrow> ('a \<Rightarrow> 'k::linorder) \<Rightarrow> ('a option \<times> real option) list \<Rightarrow> ('a \<times> real) list" where
  "groupby_sum ops f kvs =
     map (\<lambda>k. (k, c_sum ops (List.map_filter snd (filter (\<lambda>kv. fst kv = Some k) kvs))))
       (sort_key f (remdups (List.map_filter fst kvs)))"

text \<open>\<^verbatim>\<open>Series.nlargest(n)\<close> with the default \<^verbatim>\<open>keep='first'\<close>: descending by value, equal
  values in the order they have in the series.\<close>

definition nlargest :: "nat \<Rightarrow> ('a \<times> real) list \<Rightarrow> ('a \<times> real) list" where
  "nlargest n xs = take n (sort_key (\<lambda>kv. - snd kv) xs)"

fun cell_num :: "cell \<Rightarrow> real option" where
  "cell_num (CNum x) = Some x"
| "cell_num c = None"

fun cell_key :: "cell \<Rightarrow> cell option" where
  "cell_key CNaN = None"
| "cell_key c = Some c"

fun datetime_key :: "datetime \<Rightarrow> int option" where
  "datetime_key NaT = None"
| "datetime_key (Timestamp t) = Some t"

text \<open>The order of group keys that are cells: numbers by value, strings by code point,
  numbers before strings.\<close>

fun cell_order :: "cell \<Rightarrow> nat \<times> real \<times> string" where
  "cell_order (CNum x) = (0, x, [])"
| "cell_order (CStr s) = (1, 0, s)"
| "cell_order CNaN = (2, 0, [])"

text \<open>
  \<^verbatim>\<open>df['units_sold'] * df['price']\<close>. A string operand cannot come from a stored file
  (validation raises on a string in either column); the model stops with TypeError
  there.
\<close>

fun cell_mul :: "column_ops \<Rightarrow> cell \<Rightarrow> cell \<Rightarrow> exn + real option" where
  "cell_mul ops (CStr s) b = Inl TypeError"
| "cell_mul ops a (CStr s) = Inl TypeError"
| "cell_mul ops (CNum x) (CNum y) = Inr (Some (c_prod ops x y))"
| "cell_mul ops a b = Inr None"

fun cell_value :: "cell \<Rightarrow> exn + real option" where
  "cell_value (CStr s) = Inl TypeError"
| "cell_value (CNum x) = Inr (Some x)"
| "cell_value CNaN = Inr None"

record analysis_response =
  revenue_over_time :: "(date_field \<times> real) list"
  top_products :: "(cell \<times> real) list"

definition get_historical_analysis ::
  "(cell \<Rightarrow> exn + datetime) \<Rightarrow> (int \<Rightarrow> string) \<Rightarrow> column_ops \<Rightarrow> storage \<Rightarrow> int \<Rightarrow> string
     \<Rightarrow> error + analysis_response" where
  "get_historical_analysis to_datetime strftime ops st user_id fname =
     (case st (file_path user_id fname) of
        None \<Rightarrow> Inl (HTTPException 404 FileNotFound)
      | Some content \<Rightarrow>
     (case read_csv content of
        Inl e \<Rightarrow> Inl (Unhandled e)
      | Inr df \<Rightarrow>
     if ''date'' \<notin> set (columns df) then Inl (Unhandled (KeyError ''date'')) else
     (case sequence (map to_datetime (column df ''date'')) of
        Inl e \<Rightarrow> Inl (Unhandled e)
      | Inr dates \<Rightarrow>
     if ''units_sold'' \<notin> set (columns df) then Inl (Unhandled (KeyError ''units_sold'')) else
     if ''price'' \<notin> set (columns df) then Inl (Unhandled (KeyError ''price'')) else
     (case sequence (map (\<lambda>r. cell_mul ops (r ''units_sold'') (r ''price'')) (rows df)) of
        Inl e \<Rightarrow> Inl (Unhandled e)
      | Inr revenue \<Rightarrow>
     if ''product_id'' \<notin> set (columns df) then Inl (Unhandled (KeyError ''product_id'')) else
     (case sequence (map cell_value (column df ''units_sold'')) of
        Inl e \<Rightarrow> Inl (Unhandled e)
      | Inr units \<Rightarrow>
          Inr \<lparr>revenue_over_time =
                 map (\<lambda>(d, v). (Formatted (strftime d), v))
                   (groupby_sum ops (\<lambda>t. t) (zip (map datetime_key dates) revenue)),
               top_products =
                 nlargest 5
                   (groupby_sum ops cell_order
                      (zip (map cell_key (column df ''product_id'')) units))\<rparr>)))))"

section \<open>Forecast\<close>

text \<open>
  A Python float: the value of a finite binary64 number, an infinity or NaN. The
  comparisons with a finite number are exact, and every comparison with NaN is False.
\<close>

datatype pyfloat = Fin real | PosInf | NegInf | NaN

fun gt :: "pyfloat \<Rightarrow> real \<Rightarrow> bool" where
  "gt (Fin x) c = (x > c)"
| "gt PosInf c = True"
| "gt NegInf c = False"
| "gt NaN c = False"

fun lt :: "pyfloat \<Rightarrow> real \<Rightarrow> bool" where
  "lt (Fin x) c = (x < c)"
| "lt PosInf c = False"
| "lt NegInf c = True"
| "lt NaN c = False"

fun pyabs :: "pyfloat \<Rightarrow> pyfloat" where
  "pyabs (Fin x) = Fin \<bar>x\<bar>"
| "pyabs PosInf = PosInf"
| "pyabs NegInf = PosInf"
| "pyabs NaN = NaN"

text \<open>
  The arithmetic of binary64 rounds, and the model does not compute it: subtraction,
  division and multiplication of floats and the mean of a float series (pandas'
  \<^verbatim>\<open>Series.mean()\<close>, which skips missing values and is NaN for a series without values)
  are parameters of the handlers, like the other library functions.
\<close>

record float_ops =
  f_sub :: "pyfloat \<Rightarrow> pyfloat \<Rightarrow> pyfloat"
  f_div :: "pyfloat \<Rightarrow> pyfloat \<Rightarrow> pyfloat"
  f_mul :: "pyfloat \<Rightarrow> pyfloat \<Rightarrow> pyfloat"
  f_mean :: "pyfloat list \<Rightarrow> pyfloat"

fun cell_float :: "cell \<Rightarrow> pyfloat" where
  "cell_float (CNum x) = Fin x"
| "cell_float c = NaN"

text \<open>\<^verbatim>\<open>Series.mean()\<close> of a column of cells; a string in it raises TypeError.\<close>

definition series_mean :: "float_ops \<Rightarrow> cell list \<Rightarrow> exn + pyfloat" where
  "series_mean ops cs =
     (if list_ex is_str cs then Inl TypeError else Inr (f_mean ops (map cell_float cs)))"

text \<open>Lines 58 to 61 of \<^verbatim>\<open>generate_insight\<close>.\<close>

definition change_percent_of :: "float_ops \<Rightarrow> pyfloat \<Rightarrow> pyfloat \<Rightarrow> pyfloat" where
  "change_percent_of ops last_historical_avg last_forecast_avg =
     (if last_historical_avg = NaN \<or> last_historical_avg = Fin 0
      then (if gt last_forecast_avg 0 then PosInf else Fin 0)
      else f_mul ops
             (f_div ops (f_sub ops last_forecast_avg last_historical_avg) last_historical_avg)
             (Fin 100))"

text \<open>\<open>fmt0\<close> is Python's \<^verbatim>\<open>{:.0f}\<close> formatting of a float.\<close>

definition generate_insight ::
  "float_ops \<Rightarrow> (pyfloat \<Rightarrow> string) \<Rightarrow> string \<Rightarrow> cell list \<Rightarrow> real list \<Rightarrow> exn + string" where
  "generate_insight ops fmt0 product_id y yhats =
     (case series_mean ops (tail 7 y) of
        Inl e \<Rightarrow> Inl e
      | Inr last_historical_avg \<Rightarrow>
          let last_forecast_avg = f_mean ops (map Fin (tail 7 yhats));
              change_percent = change_percent_of ops last_historical_avg last_forecast_avg;
              (trend_summary, recommendation) =
                (if gt change_percent 15 then
                   (''shows a strong upward trend. Sales are predicted to increase by approximately ''
                      @ fmt0 change_percent @ ''% over the next month.'',
                    ''Consider increasing stock to meet expected demand.'')
                 else if gt change_percent 5 then
                   (''shows a modest upward trend, with a predicted increase of around ''
                      @ fmt0 change_percent @ ''%.'',
                    ''Ensure stock levels are adequate.'')
                 else if lt change_percent (- 15) then
                   (''shows a significant downward trend, with sales predicted to decrease by ''
                      @ fmt0 (pyabs change_percent) @ ''%.'',
                    ''Consider running promotions or reducing inventory.'')
                 else if lt change_percent (- 5) then
                   (''shows a modest downward trend, with a predicted decrease of around ''
                      @ fmt0 (pyabs change_percent) @ ''%.'',
                    ''Monitor sales closely.'')
                 else
                   (''is predicted to remain stable.'',
                    ''Maintain current inventory and marketing strategies.''))
          in Inr (''Product '' @ [CHR 0x27] @ product_id @ [CHR 0x27] @ '' '' @ trend_summary
                    @ '' '' @ recommendation))"

text \<open>
  The lines the two forecast handlers share (263 to 270 and 141 to 149 of main.py),
  which differ only in the detail of the error for a short history: the rows of the
  product, the two checks, the selection of (date, units_sold) and the date parsing.
  A product id of the request is a string; it equals a cell only when the cell is that
  string.
\<close>

definition product_rows :: "dataframe \<Rightarrow> string \<Rightarrow> (string \<Rightarrow> cell) list" where
  "product_rows df product_id = filter (\<lambda>r. r ''product_id'' = CStr product_id) (rows df)"

definition prophet_df_of ::
  "(cell \<Rightarrow> exn + datetime) \<Rightarrow> detail \<Rightarrow> storage \<Rightarrow> int \<Rightarrow> string \<Rightarrow> string
     \<Rightarrow> error + history" where
  "prophet_df_of to_datetime short st user_id product_id fname =
     (case st (file_path user_id fname) of
        None \<Rightarrow> Inl (HTTPException 404 FileNotFound)
      | Some content \<Rightarrow>
     (case read_csv content of
        Inl e \<Rightarrow> Inl (Unhandled e)
      | Inr df \<Rightarrow>
     if ''product_id'' \<notin> set (columns df) then Inl (Unhandled (KeyError ''product_id'')) else
     let product_history = product_rows df product_id in
     if product_history = [] then Inl (HTTPException 404 (ProductNotFound product_id)) else
     if length product_history < 30 then Inl (HTTPException 400 short) else
     if ''date'' \<notin> set (columns df) then Inl (Unhandled (KeyError ''date'')) else
     if ''units_sold'' \<notin> set (columns df) then Inl (Unhandled (KeyError ''units_sold'')) else
     (case sequence (map (\<lambda>r. to_datetime (r ''date'')) product_history) of
        Inl e \<Rightarrow> Inl (Unhandled e)
      | Inr dates \<Rightarrow> Inr (zip dates (map (\<lambda>r. r ''units_sold'') product_history)))))"

record forecast_point =
  fp_ds :: date_field
  fp_yhat :: real
  fp_yhat_lower :: real
  fp_yhat_upper :: real

record forecast_response =
  product_id :: string
  insight :: string
  historical_data :: "(date_field \<times> cell) list"
  forecast_data :: "forecast_point list"

definition get_forecast ::
  "(cell \<Rightarrow> exn + datetime) \<Rightarrow> forecaster \<Rightarrow> float_ops \<Rightarrow> (pyfloat \<Rightarrow> string) \<Rightarrow> storage
     \<Rightarrow> int \<Rightarrow> string \<Rightarrow> string \<Rightarrow> error + forecast_response" where
  "get_forecast to_datetime prophet ops fmt0 st user_id pid fname =
     (case prophet_df_of to_datetime NotEnoughData st user_id pid fname of
        Inl e \<Rightarrow> Inl e
      | Inr prophet_df \<Rightarrow>
     (case prophet True prophet_df 30 of
        Inl e \<Rightarrow> Inl (Unhandled e)
      | Inr forecast \<Rightarrow>
     (case generate_insight ops fmt0 pid (map snd prophet_df) (map yhat forecast) of
        Inl e \<Rightarrow> Inl (Unhandled e)
      | Inr insight_text \<Rightarrow>
          Inr \<lparr>product_id = pid,
               insight = insight_text,
               historical_data = map (\<lambda>(d, y). (DatetimeValue d, y)) prophet_df,
               forecast_data =
                 map (\<lambda>r. \<lparr>fp_ds = DatetimeValue (Timestamp (ds r)), fp_yhat = yhat r,
                            fp_yhat_lower = yhat_lower r, fp_yhat_upper = yhat_upper r\<rparr>)
                   (tail 30 forecast)\<rparr>)))"

section \<open>Export\<close>

text \<open>
  \<^verbatim>\<open>export_df.to_csv(stream, index=False)\<close>: a header line and one line per row, the
  fields joined by commas; \<open>float_repr\<close> is the text pandas writes for a float. A date
  formatted with \<^verbatim>\<open>%Y-%m-%d\<close> needs no quoting.
\<close>

definition csv_header :: "string list" where
  "csv_header = [''date'', ''predicted_sales'', ''predicted_sales_lower_bound'',
                 ''predicted_sales_upper_bound'']"

fun join :: "string \<Rightarrow> string list \<Rightarrow> string" where
  "join sep [] = []"
| "join sep [x] = x"
| "join sep (x # y # ys) = x @ sep @ join sep (y # ys)"

definition export_fields :: "(int \<Rightarrow> string) \<Rightarrow> (real \<Rightarrow> string) \<Rightarrow> forecast_row \<Rightarrow> string list" where
  "export_fields strftime float_repr r =
     [strftime (ds r), float_repr (yhat r), float_repr (yhat_lower r), float_repr (yhat_upper r)]"

definition to_csv :: "string list \<Rightarrow> string list list \<Rightarrow> string" where
  "to_csv header records = concat (map (\<lambda>fields. join '','' fields @ [CHR 0x0A]) (header # records))"

record export_response =
  media_type :: string
  content_disposition :: string
  body :: string

definition export_forecast_csv ::
  "(cell \<Rightarrow> exn + datetime) \<Rightarrow> forecaster \<Rightarrow> (int \<Rightarrow> string) \<Rightarrow> (real \<Rightarrow> string) \<Rightarrow> storage
     \<Rightarrow> int \<Rightarrow> string \<Rightarrow> string \<Rightarrow> error + export_response" where
  "export_forecast_csv to_datetime prophet strftime float_repr st user_id pid fname =
     (case prophet_df_of to_datetime NotEnoughDataToExport st user_id pid fname of
        Inl e \<Rightarrow> Inl e
      | Inr prophet_df \<Rightarrow>
     (case prophet True prophet_df 30 of
        Inl e \<Rightarrow> Inl (Unhandled e)
      | Inr forecast \<Rightarrow>
          Inr \<lparr>media_type = ''text/csv'',
               content_disposition = ''attachment; filename=forecast_'' @ pid @ ''.csv'',
               body = to_csv csv_header (map (export_fields strftime float_repr) forecast)\<rparr>))"

section \<open>Instances of the external functions for worked examples\<close>

text \<open>
  Closed examples need concrete library functions. Timestamps count nanoseconds since
  1970-01-01. The date parser reads ISO calendar dates (\<^verbatim>\<open>YYYY-MM-DD\<close>) and raises on
  any other text; the formatter renders the calendar day of a timestamp. The forecaster
  is a stand-in with the shape of the library's output: one row for each distinct date
  of the history, in ascending order, then one row for each of the requested future
  days, every prediction being the last observed value.
\<close>

definition ns_per_day :: int where
  "ns_per_day = 86400000000000"

definition days_from_civil :: "int \<Rightarrow> int \<Rightarrow> int \<Rightarrow> int" where
  "days_from_civil y m d =
     (let y1 = (if m \<le> 2 then y - 1 else y);
          era = y1 div 400;
          yoe = y1 - era * 400;
          doy = (153 * (if m > 2 then m - 3 else m + 9) + 2) div 5 + d - 1;
          doe = yoe * 365 + yoe div 4 - yoe div 100 + doy
      in era * 146097 + doe - 719468)"

definition civil_from_days :: "int \<Rightarrow> int \<times> int \<times> int" where
  "civil_from_days z0 =
     (let z = z0 + 719468;
          era = z div 146097;
          doe = z - era * 146097;
          yoe = (doe - doe div 1460 + doe div 36524 - doe div 146096) div 365;
          doy = doe - (365 * yoe + yoe div 4 - yoe div 100);
          mp = (5 * doy + 2) div 153;
          d = doy - (153 * mp + 2) div 5 + 1;
          m = (if mp < 10 then mp + 3 else mp - 9);
          y = yoe + era * 400
      in (if m \<le> 2 then y + 1 else y, m, d))"

definition digit_of :: "char \<Rightarrow> int option" where
  "digit_of c = (if c \<in> set ''0123456789'' then Some (int (of_char c) - 48) else None)"

fun number_of :: "string \<Rightarrow> int option" where
  "number_of [] = Some 0"
| "number_of cs =
     (case (number_of (butlast cs), digit_of (last cs)) of
        (Some n, Some d) \<Rightarrow> Some (10 * n + d)
      | _ \<Rightarrow> None)"

definition iso_date :: "string \<Rightarrow> int option" where
  "iso_date s =
     (if length s = 10 \<and> s ! 4 = CHR ''-'' \<and> s ! 7 = CHR ''-'' then
        (case (number_of (take 4 s), number_of (take 2 (drop 5 s)), number_of (drop 8 s)) of
           (Some y, Some m, Some d) \<Rightarrow>
             (if civil_from_days (days_from_civil y m d) = (y, m, d)
              then Some (days_from_civil y m d * ns_per_day) else None)
         | _ \<Rightarrow> None)
      else None)"

fun to_datetime_iso :: "cell \<Rightarrow> exn + datetime" where
  "to_datetime_iso CNaN = Inr NaT"
| "to_datetime_iso (CNum x) = Inr (Timestamp \<lfloor>x\<rfloor>)"
| "to_datetime_iso (CStr s) =
     (case iso_date s of None \<Rightarrow> Inl DateParseError | Some t \<Rightarrow> Inr (Timestamp t))"

definition pad :: "nat \<Rightarrow> string \<Rightarrow> string" where
  "pad n s = replicate (n - length s) CHR ''0'' @ s"

definition strftime_ymd :: "int \<Rightarrow> string" where
  "strftime_ymd t =
     (case civil_from_days (t div ns_per_day) of
        (y, m, d) \<Rightarrow> pad 4 (str_int y) @ ''-'' @ pad 2 (str_int m) @ ''-'' @ pad 2 (str_int d))"

definition naive_forecaster :: forecaster where
  "naive_forecaster daily_seasonality hist periods =
     (let ts = sort (remdups (List.map_filter (\<lambda>p. datetime_key (fst p)) hist));
          ys = List.map_filter (\<lambda>p. cell_num (snd p)) hist
      in if ts = [] \<or> ys = [] then Inl FitError
         else
           let level = last ys;
               future = map (\<lambda>k. last ts + int k * ns_per_day) [1..<Suc periods]
           in Inr (map (\<lambda>t. \<lparr>ds = t, yhat = level, yhat_lower = level - 1,
                               yhat_upper = level + 1\<rparr>) (ts @ future)))"

text \<open>A row of a file that has exactly the four required columns.\<close>

definition sales_row :: "cell \<Rightarrow> cell \<Rightarrow> cell \<Rightarrow> cell \<Rightarrow> string \<Rightarrow> cell" where
  "sales_row d p u pr c =
     (if c = ''date'' then d else if c = ''product_id'' then p
      else if c = ''units_sold'' then u else if c = ''price'' then pr else CNaN)"

definition sales_frame :: "(string \<Rightarrow> cell) list \<Rightarrow> dataframe" where
  "sales_frame rs = \<lparr>columns = required_columns, rows = rs\<rparr>"

section \<open>Predicates of the claims\<close>

definition has_required :: "dataframe \<Rightarrow> bool" where
  "has_required df = list_all (\<lambda>c. c \<in> set (columns df)) required_columns"

definition numeric :: "cell list \<Rightarrow> bool" where
  "numeric cs = list_all (\<lambda>v. \<not> is_str v) cs"

definition no_negative :: "cell list \<Rightarrow> bool" where
  "no_negative cs = list_all (\<lambda>v. \<not> cell_lt v 0) cs"

section \<open>Example files\<close>

definition frame_without_price :: dataframe where
  "frame_without_price =
     \<lparr>columns = [''date'', ''product_id'', ''units_sold''],
      rows = [sales_row (CStr ''2024-01-01'') (CStr ''A'') (CNum 10) CNaN]\<rparr>"

definition frame_negative_units :: dataframe where
  "frame_negative_units =
     sales_frame [sales_row (CStr ''2024-01-01'') (CStr ''A'') (CNum (- 1)) (CNum 2)]"

definition frame_text_units :: dataframe where
  "frame_text_units =
     sales_frame [sales_row (CStr ''2024-01-01'') (CStr ''A'') (CStr ''abc'') (CNum 2)]"

text \<open>A valid file with a row whose product_id is missing.\<close>

definition frame_missing_product :: dataframe where
  "frame_missing_product = sales_frame
     [sales_row (CStr ''2024-01-01'') (CStr ''A'') (CNum 10) (CNum 2),
      sales_row (CStr ''2024-01-02'') CNaN (CNum 5) (CNum 3)]"

text \<open>The data set of the specification's analysis example.\<close>

definition spec_sales :: dataframe where
  "spec_sales = sales_frame
     [sales_row (CStr ''2024-01-01'') (CStr ''A'') (CNum 10) (CNum 2),
      sales_row (CStr ''2024-01-01'') (CStr ''B'') (CNum 5) (CNum 3),
      sales_row (CStr ''2024-01-02'') (CStr ''A'') (CNum 7) (CNum 2)]"

text \<open>Thirty rows of product A whose dates are no dates.\<close>

definition frame_bad_dates :: dataframe where
  "frame_bad_dates =
     sales_frame (replicate 30 (sales_row (CStr ''notadate'') (CStr ''A'') (CNum 3) (CNum 1)))"

text \<open>Thirty rows of a product whose id is made of digits: the column is read as
  numbers.\<close>

definition frame_numeric_ids :: dataframe where
  "frame_numeric_ids =
     sales_frame (replicate 30 (sales_row (CStr ''2024-01-01'') (CNum 101) (CNum 3) (CNum 1)))"

text \<open>Thirty rows of product A, the first of them dated after the others.\<close>

definition frame_unsorted :: dataframe where
  "frame_unsorted =
     sales_frame (sales_row (CStr ''2024-01-02'') (CStr ''A'') (CNum 3) (CNum 1)
       # replicate 29 (sales_row (CStr ''2024-01-01'') (CStr ''A'') (CNum 3) (CNum 1)))"

text \<open>Python's \<^verbatim>\<open>{:.0f}\<close> for the examples: round half to even, \<^verbatim>\<open>inf\<close> and \<^verbatim>\<open>nan\<close>
  (a value that rounds to a negative zero aside).\<close>

fun fmt0_half_even :: "pyfloat \<Rightarrow> string" where
  "fmt0_half_even (Fin x) =
     (let f = \<lfloor>x\<rfloor>; r = x - of_int f
      in str_int (if r < 1 / 2 then f else if r > 1 / 2 then f + 1
                  else if even f then f else f + 1))"
| "fmt0_half_even PosInf = ''inf''"
| "fmt0_half_even NegInf = ''-inf''"
| "fmt0_half_even NaN = ''nan''"

text \<open>
  Float arithmetic without rounding, on finite operands: it agrees with binary64
  wherever binary64 is exact, which is the case in the worked examples (small whole
  numbers). The mean skips NaN and is NaN for a series without values.
\<close>

fun finite_op :: "(real \<Rightarrow> real \<Rightarrow> real) \<Rightarrow> pyfloat \<Rightarrow> pyfloat \<Rightarrow> pyfloat" where
  "finite_op f (Fin a) (Fin b) = Fin (f a b)"
| "finite_op f a b = NaN"

fun finite_value :: "pyfloat \<Rightarrow> real option" where
  "finite_value (Fin x) = Some x"
| "finite_value v = None"

definition exact_mean :: "pyfloat list \<Rightarrow> pyfloat" where
  "exact_mean xs =
     (let vs = List.map_filter finite_value xs
      in if vs = [] then NaN else Fin (sum_list vs / real (length vs)))"

text \<open>Products and sums without rounding: binary64 is exact on the whole numbers of
  the worked examples.\<close>

definition exact_column_ops :: column_ops where
  "exact_column_ops = \<lparr>c_prod = (*), c_sum = sum_list\<rparr>"

definition exact_ops :: float_ops where
  "exact_ops = \<lparr>f_sub = finite_op (-), f_div = finite_op (/), f_mul = finite_op (*),
                f_mean = exact_mean\<rparr>"

text \<open>A file system with the flat upload directory only: a file can be created when
  its name under the directory has no slash.\<close>

definition flat_directory :: "string \<Rightarrow> bool" where
  "flat_directory path =
     (take 10 path = ''./uploads/'' \<and> CHR ''/'' \<notin> set (drop 10 path))"

text \<open>The text pandas writes for a float of integral value, and its reader.\<close>

definition float_repr_integral :: "real \<Rightarrow> string" where
  "float_repr_integral x = str_int \<lfloor>x\<rfloor> @ ''.0''"

definition float_of_text :: "string \<Rightarrow> real" where
  "float_of_text s = (case number_of (take (length s - 2) s) of Some n \<Rightarrow> of_int n | None \<Rightarrow> 0)"

definition date_of_text :: "string \<Rightarrow> int" where
  "date_of_text s = (case iso_date s of Some t \<Rightarrow> t | None \<Rightarrow> 0)"

section \<open>The insight as the specification words it\<close>

text \<open>
  Section 4.4, step 6 of the specification: the change in percent from the two
  averages, the five branches in their order, and the message of each branch.
\<close>

datatype trend = StrongUpward | ModestUpward | SignificantDownward | ModestDownward | Stable

definition spec_change_percent :: "float_ops \<Rightarrow> pyfloat \<Rightarrow> pyfloat \<Rightarrow> pyfloat" where
  "spec_change_percent ops hist_avg fcst_avg =
     (let undefined_or_zero = (case hist_avg of NaN \<Rightarrow> True | Fin h \<Rightarrow> h = 0 | _ \<Rightarrow> False)
      in if undefined_or_zero then (if gt fcst_avg 0 then PosInf else Fin 0)
         else f_mul ops (f_div ops (f_sub ops fcst_avg hist_avg) hist_avg) (Fin 100))"

definition spec_trend :: "pyfloat \<Rightarrow> trend" where
  "spec_trend c =
     (if gt c 15 then StrongUpward
      else if gt c 5 then ModestUpward
      else if lt c (- 15) then SignificantDownward
      else if lt c (- 5) then ModestDownward
      else Stable)"

fun trend_message :: "(pyfloat \<Rightarrow> string) \<Rightarrow> trend \<Rightarrow> pyfloat \<Rightarrow> string" where
  "trend_message fmt0 StrongUpward c =
     ''shows a strong upward trend. Sales are predicted to increase by approximately ''
       @ fmt0 c @ ''% over the next month. Consider increasing stock to meet expected demand.''"
| "trend_message fmt0 ModestUpward c =
     ''shows a modest upward trend, with a predicted increase of around ''
       @ fmt0 c @ ''%. Ensure stock levels are adequate.''"
| "trend_message fmt0 SignificantDownward c =
     ''shows a significant downward trend, with sales predicted to decrease by ''
       @ fmt0 (pyabs c) @ ''%. Consider running promotions or reducing inventory.''"
| "trend_message fmt0 ModestDownward c =
     ''shows a modest downward trend, with a predicted decrease of around ''
       @ fmt0 (pyabs c) @ ''%. Monitor sales closely.''"
| "trend_message fmt0 Stable c =
     ''is predicted to remain stable. Maintain current inventory and marketing strategies.''"

definition spec_insight ::
  "float_ops \<Rightarrow> (pyfloat \<Rightarrow> string) \<Rightarrow> string \<Rightarrow> pyfloat \<Rightarrow> pyfloat \<Rightarrow> string" where
  "spec_insight ops fmt0 pid hist_avg fcst_avg =
     (let c = spec_change_percent ops hist_avg fcst_avg
      in ''Product '' @ [CHR 0x27] @ pid @ [CHR 0x27] @ '' '' @ trend_message fmt0 (spec_trend c) c)"

section \<open>Reading the exported text back\<close>

text \<open>
  A reader of the exported CSV text: a line ends at the newline character and its
  fields are separated by commas. A record of four fields gives a tuple through a date
  reader and a float reader.
\<close>

fun split_on :: "char \<Rightarrow> string \<Rightarrow> string list" where
  "split_on c [] = [[]]"
| "split_on c (x # xs) =
     (if x = c then [] # split_on c xs
      else (case split_on c xs of [] \<Rightarrow> [[x]] | w # ws \<Rightarrow> (x # w) # ws))"

definition csv_lines :: "string \<Rightarrow> string list" where
  "csv_lines text = (let ls = split_on (CHR 0x0A) text in if last ls = [] then butlast ls else ls)"

definition read_csv_text :: "string \<Rightarrow> string list list" where
  "read_csv_text text = map (split_on CHR '','') (csv_lines text)"

fun record_tuple ::
  "(string \<Rightarrow> int) \<Rightarrow> (string \<Rightarrow> real) \<Rightarrow> string list \<Rightarrow> (int \<times> real \<times> real \<times> real) option" where
  "record_tuple date_of float_of [d, a, b, c] = Some (date_of d, float_of a, float_of b, float_of c)"
| "record_tuple date_of float_of fs = None"

definition clean_field :: "string \<Rightarrow> bool" where
  "clean_field s = (CHR '','' \<notin> set s \<and> CHR 0x0A \<notin> set s)"

text \<open>What the two library renderings must satisfy on a forecast row for the text to
  be read back: no comma or newline in a field, and readers that invert them.\<close>

definition readable_row ::
  "(int \<Rightarrow> string) \<Rightarrow> (real \<Rightarrow> string) \<Rightarrow> (string \<Rightarrow> int) \<Rightarrow> (string \<Rightarrow> real) \<Rightarrow> forecast_row \<Rightarrow> bool" where
  "readable_row strftime float_repr date_of float_of r =
     (list_all clean_field (export_fields strftime float_repr r)
      \<and> date_of (strftime (ds r)) = ds r
      \<and> float_of (float_repr (yhat r)) = yhat r
      \<and> float_of (float_repr (yhat_lower r)) = yhat_lower r
      \<and> float_of (float_repr (yhat_upper r)) = yhat_upper r)"

text \<open>A history is in ascending date order when its timestamps, in row order, are.\<close>

definition date_ascending :: "history \<Rightarrow> bool" where
  "date_ascending hist = sorted (List.map_filter (\<lambda>p. datetime_key (fst p)) hist)"

text \<open>A row of the forecast output as the forecast handler returns it.\<close>

definition forecast_point_of :: "forecast_row \<Rightarrow> forecast_point" where
  "forecast_point_of r =
     \<lparr>fp_ds = DatetimeValue (Timestamp (ds r)), fp_yhat = yhat r,
      fp_yhat_lower = yhat_lower r, fp_yhat_upper = yhat_upper r\<rparr>"

text \<open>Two records of 2024-01-01, at 00:00 and at 12:00, their dates given as
  timestamps.\<close>

definition frame_two_times :: dataframe where
  "frame_two_times = sales_frame
     [sales_row (CNum 1704067200000000000) (CStr ''A'') (CNum 10) (CNum 2),
      sales_row (CNum 1704110400000000000) (CStr ''A'') (CNum 5) (CNum 3)]"

text \<open>Two products with equal totals, B stored before A.\<close>

definition frame_tie :: dataframe where
  "frame_tie = sales_frame
     [sales_row (CStr ''2024-01-01'') (CStr ''B'') (CNum 5) (CNum 1),
      sales_row (CStr ''2024-01-01'') (CStr ''A'') (CNum 5) (CNum 1)]"

section \<open>The aggregates as the specification words them\<close>

text \<open>The revenue of a record is the product of units_sold and price; it is missing
  when either is.\<close>

definition row_revenue :: "column_ops \<Rightarrow> (string \<Rightarrow> cell) \<Rightarrow> real option" where
  "row_revenue ops r =
     (case (r ''units_sold'', r ''price'') of
        (CNum u, CNum p) \<Rightarrow> Some (c_prod ops u p)
      | _ \<Rightarrow> None)"

text \<open>The sum of the revenue of the records with the timestamp \<open>t\<close>, in the order of
  the rows and without the missing ones; and the timestamps of the records, ascending
  and without repetition.\<close>

definition revenue_on ::
  "column_ops \<Rightarrow> datetime list \<Rightarrow> (string \<Rightarrow> cell) list \<Rightarrow> int \<Rightarrow> real" where
  "revenue_on ops dates rs t =
     c_sum ops (List.map_filter (\<lambda>p. row_revenue ops (snd p))
                  (filter (\<lambda>p. fst p = Timestamp t) (zip dates rs)))"

definition analysis_days :: "datetime list \<Rightarrow> int list" where
  "analysis_days dates = sort (remdups (List.map_filter datetime_key dates))"

text \<open>The total of units_sold of a product: the sum over its rows, in their order,
  without the missing values.\<close>

definition units_total :: "column_ops \<Rightarrow> dataframe \<Rightarrow> cell \<Rightarrow> real" where
  "units_total ops df p =
     c_sum ops (List.map_filter (\<lambda>r. cell_num (r ''units_sold''))
                  (filter (\<lambda>r. r ''product_id'' = p) (rows df)))"

text \<open>The order of the ranking: a larger total first, and among equal totals the
  smaller product id first.\<close>

definition ranks_before :: "cell \<times> real \<Rightarrow> cell \<times> real \<Rightarrow> bool" where
  "ranks_before a b =
     (snd a > snd b \<or> (snd a = snd b \<and> cell_order (fst a) < cell_order (fst b)))"

text \<open>The product ids of a data set in the order of the grouped totals: ascending,
  each once, the missing value left out.\<close>

definition product_ids :: "dataframe \<Rightarrow> cell list" where
  "product_ids df =
     sort_key cell_order (remdups (filter (\<lambda>c. c \<noteq> CNaN) (column df ''product_id'')))"

section \<open>Validation and upload: basic facts\<close>

lemma lt_any_numeric: "numeric cs \<Longrightarrow> lt_any cs c = Inr (list_ex (\<lambda>v. cell_lt v c) cs)"
  by (simp add: lt_any_def numeric_def list_all_iff list_ex_iff)

lemma no_negative_ex: "no_negative cs = (\<not> list_ex (\<lambda>v. cell_lt v 0) cs)"
  by (simp add: no_negative_def list_all_iff list_ex_iff)

lemma validate_ok:
  assumes "read_csv content = Inr df" "has_required df"
    "numeric (column df ''units_sold'')" "numeric (column df ''price'')"
    "no_negative (column df ''units_sold'')" "no_negative (column df ''price'')"
  shows "validate content = Inr df"
  using assms by (simp add: validate_def has_required_def lt_any_numeric no_negative_ex)

lemma validate_missing:
  assumes "read_csv content = Inr df" "\<not> has_required df"
  shows "validate content = Inl (MissingColumns (columns df))"
  using assms by (simp add: validate_def has_required_def)

lemma validate_negative:
  assumes "read_csv content = Inr df" "has_required df"
    "numeric (column df ''units_sold'')" "numeric (column df ''price'')"
    "\<not> no_negative (column df ''units_sold'') \<or> \<not> no_negative (column df ''price'')"
  shows "validate content = Inl NegativeValues"
  using assms by (cases "list_ex (\<lambda>v. cell_lt v 0) (column df ''units_sold'')")
    (auto simp add: validate_def has_required_def lt_any_numeric no_negative_ex)

lemma validate_Inr_same: "validate content = Inr df \<Longrightarrow> read_csv content = Inr df"
  by (auto simp add: validate_def split: sum.splits if_splits bool.splits)

lemma validate_Inr_required: "validate content = Inr df \<Longrightarrow> has_required df"
  by (auto simp add: validate_def has_required_def split: sum.splits if_splits bool.splits)

lemma lt_any_Inr_numeric: "lt_any cs c = Inr b \<Longrightarrow> numeric cs"
  by (auto simp add: lt_any_def numeric_def list_all_iff list_ex_iff split: if_splits)

lemma validate_Inr_numeric:
  "validate content = Inr df \<Longrightarrow>
   numeric (column df ''units_sold'') \<and> numeric (column df ''price'')"
  by (auto simp add: validate_def split: sum.splits if_splits bool.splits
      dest: lt_any_Inr_numeric)

lemma upload_rejected_name:
  "\<not> endswith fname ''.csv'' \<Longrightarrow>
   upload_csv can_open st uid fname content = (Inl (HTTPException 400 InvalidFileType), st)"
  by (simp add: upload_csv_def)

lemma upload_unwritable:
  "endswith fname ''.csv'' \<Longrightarrow> st (file_path uid fname) = None \<Longrightarrow>
   \<not> can_open (file_path uid fname) \<Longrightarrow>
   upload_csv can_open st uid fname content = (Inl (Unhandled OSError), st)"
  by (simp add: upload_csv_def Let_def)

lemma upload_invalid:
  "endswith fname ''.csv'' \<Longrightarrow>
   st (file_path uid fname) \<noteq> None \<or> can_open (file_path uid fname) \<Longrightarrow>
   validate content = Inl e \<Longrightarrow>
   upload_csv can_open st uid fname content =
     (Inl (HTTPException 400 (CsvValidationError e)), st(file_path uid fname := None))"
  by (auto simp add: upload_csv_def Let_def)

lemma upload_valid:
  "endswith fname ''.csv'' \<Longrightarrow>
   st (file_path uid fname) \<noteq> None \<or> can_open (file_path uid fname) \<Longrightarrow>
   validate content = Inr df \<Longrightarrow> \<not> list_ex is_nan (column df ''product_id'') \<Longrightarrow>
   upload_csv can_open st uid fname content =
     (Inr \<lparr>message = ''CSV validated and saved successfully!'', filename = fname,
           products = unique (column df ''product_id'')\<rparr>,
      st(file_path uid fname \<mapsto> content))"
  by (auto simp add: upload_csv_def Let_def list_ex_iff unique_def)

lemma upload_not_encodable:
  "endswith fname ''.csv'' \<Longrightarrow>
   st (file_path uid fname) \<noteq> None \<or> can_open (file_path uid fname) \<Longrightarrow>
   validate content = Inr df \<Longrightarrow> list_ex is_nan (column df ''product_id'') \<Longrightarrow>
   upload_csv can_open st uid fname content =
     (Inl (Unhandled NotJsonCompliant), st(file_path uid fname \<mapsto> content))"
  by (auto simp add: upload_csv_def Let_def list_ex_iff unique_def)

lemma set_unique: "set (unique xs) = set xs"
  by (simp add: unique_def)

lemma distinct_unique: "distinct (unique xs)"
  by (simp add: unique_def)

lemmas example_frames = frame_without_price_def frame_negative_units_def frame_text_units_def
  spec_sales_def sales_frame_def sales_row_def required_columns_def

lemmas eval_validate = validate_def has_required_def numeric_def no_negative_def lt_any_def
  column_def endswith_def

lemma flat_sales: "flat_directory (file_path 1 ''sales.csv'')"
  by (simp add: flat_directory_def file_path_def UPLOAD_DIRECTORY_def str_int_def str_nat.simps)

lemma flat_slash: "\<not> flat_directory (file_path 1 ''x/y.csv'')"
  by (simp add: flat_directory_def file_path_def UPLOAD_DIRECTORY_def str_int_def str_nat.simps)

section \<open>Failed uploads\<close>

text \<open>
  Claim C4, as amended. An upload whose file name does not end in the case-sensitive
  suffix \<^verbatim>\<open>.csv\<close> is rejected with status 400 and the storage is unchanged (nothing is
  written). An upload named \<^verbatim>\<open>.csv\<close> whose file cannot be created fails with an
  unhandled exception (status 500) before anything is written or validated. An upload
  named \<^verbatim>\<open>.csv\<close> that was written and whose content fails validation fails with status
  400 and the validation error (for a missing required column the error lists the
  columns found, for a negative units_sold or price it is the error for negative
  values), and the file just written at \<^verbatim>\<open>./uploads/user_<id>_<filename>\<close> is gone
  afterwards. These are the only failures but one: an upload that passes validation
  and whose response cannot be encoded (a missing product_id among the products) fails
  after the file was stored, and that file stays.
\<close>

theorem upload_failure_leaves_no_file:
  "(\<not> endswith fname ''.csv'' \<longrightarrow>
      upload_csv can_open st uid fname content = (Inl (HTTPException 400 InvalidFileType), st))
   \<and> (endswith fname ''.csv'' \<and> st (file_path uid fname) = None \<and>
       \<not> can_open (file_path uid fname) \<longrightarrow>
      upload_csv can_open st uid fname content = (Inl (Unhandled OSError), st))
   \<and> (endswith fname ''.csv'' \<and>
       (st (file_path uid fname) \<noteq> None \<or> can_open (file_path uid fname)) \<and>
       read_csv content = Inr df \<and> \<not> has_required df \<longrightarrow>
      upload_csv can_open st uid fname content =
        (Inl (HTTPException 400 (CsvValidationError (MissingColumns (columns df)))),
         st(file_path uid fname := None)))
   \<and> (endswith fname ''.csv'' \<and>
       (st (file_path uid fname) \<noteq> None \<or> can_open (file_path uid fname)) \<and>
       read_csv content = Inr df \<and> has_required df \<and>
       numeric (column df ''units_sold'') \<and> numeric (column df ''price'') \<and>
       (\<not> no_negative (column df ''units_sold'') \<or> \<not> no_negative (column df ''price'')) \<longrightarrow>
      upload_csv can_open st uid fname content =
        (Inl (HTTPException 400 (CsvValidationError NegativeValues)),
         st(file_path uid fname := None)))
   \<and> (endswith fname ''.csv'' \<and>
       (st (file_path uid fname) \<noteq> None \<or> can_open (file_path uid fname)) \<and>
       validate content = Inl e \<longrightarrow>
      upload_csv can_open st uid fname content =
        (Inl (HTTPException 400 (CsvValidationError e)), st(file_path uid fname := None)))
   \<and> (fst (upload_csv can_open st uid fname content) = Inl err \<longrightarrow>
      (err = HTTPException 400 InvalidFileType \<and>
         snd (upload_csv can_open st uid fname content) = st)
      \<or> (err = Unhandled OSError \<and> st (file_path uid fname) = None \<and>
         snd (upload_csv can_open st uid fname content) = st)
      \<or> ((\<exists>e. validate content = Inl e \<and> err = HTTPException 400 (CsvValidationError e)) \<and>
         snd (upload_csv can_open st uid fname content) (file_path uid fname) = None)
      \<or> (err = Unhandled NotJsonCompliant \<and>
         snd (upload_csv can_open st uid fname content) (file_path uid fname) = Some content))"
proof (intro conjI impI)
  assume "\<not> endswith fname ''.csv''"
  then show "upload_csv can_open st uid fname content = (Inl (HTTPException 400 InvalidFileType), st)"
    by (rule upload_rejected_name)
next
  assume "endswith fname ''.csv'' \<and> st (file_path uid fname) = None \<and>
       \<not> can_open (file_path uid fname)"
  then show "upload_csv can_open st uid fname content = (Inl (Unhandled OSError), st)"
    by (simp add: upload_unwritable)
next
  assume a: "endswith fname ''.csv'' \<and>
       (st (file_path uid fname) \<noteq> None \<or> can_open (file_path uid fname)) \<and>
       read_csv content = Inr df \<and> \<not> has_required df"
  then have "validate content = Inl (MissingColumns (columns df))"
    by (simp add: validate_missing)
  with a show "upload_csv can_open st uid fname content =
        (Inl (HTTPException 400 (CsvValidationError (MissingColumns (columns df)))),
         st(file_path uid fname := None))"
    using upload_invalid [of fname st uid can_open content "MissingColumns (columns df)"] by blast
next
  assume a: "endswith fname ''.csv'' \<and>
       (st (file_path uid fname) \<noteq> None \<or> can_open (file_path uid fname)) \<and>
       read_csv content = Inr df \<and> has_required df \<and>
       numeric (column df ''units_sold'') \<and> numeric (column df ''price'') \<and>
       (\<not> no_negative (column df ''units_sold'') \<or> \<not> no_negative (column df ''price''))"
  then have "validate content = Inl NegativeValues"
    using validate_negative [of content df] by blast
  with a show "upload_csv can_open st uid fname content =
        (Inl (HTTPException 400 (CsvValidationError NegativeValues)),
         st(file_path uid fname := None))"
    using upload_invalid [of fname st uid can_open content NegativeValues] by blast
next
  assume a: "endswith fname ''.csv'' \<and>
       (st (file_path uid fname) \<noteq> None \<or> can_open (file_path uid fname)) \<and>
       validate content = Inl e"
  then show "upload_csv can_open st uid fname content =
        (Inl (HTTPException 400 (CsvValidationError e)), st(file_path uid fname := None))"
    using upload_invalid [of fname st uid can_open content e] by blast
next
  assume a: "fst (upload_csv can_open st uid fname content) = Inl err"
  let ?u = "upload_csv can_open st uid fname content"
  let ?p = "file_path uid fname"
  show "(err = HTTPException 400 InvalidFileType \<and> snd ?u = st)
      \<or> (err = Unhandled OSError \<and> st ?p = None \<and> snd ?u = st)
      \<or> ((\<exists>e. validate content = Inl e \<and> err = HTTPException 400 (CsvValidationError e)) \<and>
         snd ?u ?p = None)
      \<or> (err = Unhandled NotJsonCompliant \<and> snd ?u ?p = Some content)"
  proof (cases "endswith fname ''.csv''")
    case False
    with a show ?thesis
      by (simp add: upload_rejected_name)
  next
    case c: True
    show ?thesis
    proof (cases "st ?p = None \<and> \<not> can_open ?p")
      case True
      with a c show ?thesis
        by (simp add: upload_unwritable)
    next
      case False
      then have w: "st (file_path uid fname) \<noteq> None \<or> can_open (file_path uid fname)"
        by auto
      show ?thesis
      proof (cases "validate content")
        case (Inl e)
        have "upload_csv can_open st uid fname content =
            (Inl (HTTPException 400 (CsvValidationError e)), st(file_path uid fname := None))"
          using c w Inl by (rule upload_invalid)
        with a Inl show ?thesis
          by simp
      next
        case (Inr d)
        show ?thesis
        proof (cases "list_ex is_nan (column d ''product_id'')")
          case True
          have "upload_csv can_open st uid fname content =
              (Inl (Unhandled NotJsonCompliant), st(file_path uid fname \<mapsto> content))"
            using c w Inr True by (rule upload_not_encodable)
          with a show ?thesis
            by simp
        next
          case False
          have "upload_csv can_open st uid fname content =
              (Inr \<lparr>message = ''CSV validated and saved successfully!'', filename = fname,
                    products = unique (column d ''product_id'')\<rparr>,
               st(file_path uid fname \<mapsto> content))"
            using c w Inr False by (rule upload_valid)
          with a show ?thesis
            by simp
        qed
      qed
    qed
  qed
qed

theorem upload_failure_leaves_no_file_witness:
  "\<not> endswith ''notes.txt'' ''.csv''
   \<and> upload_csv flat_directory Map.empty 1 ''notes.txt'' (Csv spec_sales)
       = (Inl (HTTPException 400 InvalidFileType), Map.empty)
   \<and> endswith ''x/y.csv'' ''.csv'' \<and> \<not> flat_directory (file_path 1 ''x/y.csv'')
   \<and> upload_csv flat_directory Map.empty 1 ''x/y.csv'' (Csv spec_sales)
       = (Inl (Unhandled OSError), Map.empty)
   \<and> endswith ''sales.csv'' ''.csv'' \<and> flat_directory (file_path 1 ''sales.csv'')
   \<and> \<not> has_required frame_without_price
   \<and> upload_csv flat_directory Map.empty 1 ''sales.csv'' (Csv frame_without_price)
       = (Inl (HTTPException 400 (CsvValidationError
            (MissingColumns [''date'', ''product_id'', ''units_sold'']))), Map.empty)
   \<and> has_required frame_negative_units
   \<and> \<not> no_negative (column frame_negative_units ''units_sold'')
   \<and> upload_csv flat_directory Map.empty 1 ''sales.csv'' (Csv frame_negative_units)
       = (Inl (HTTPException 400 (CsvValidationError NegativeValues)), Map.empty)
   \<and> validate Unparsable = Inl ParserError
   \<and> upload_csv flat_directory Map.empty 1 ''sales.csv'' Unparsable
       = (Inl (HTTPException 400 (CsvValidationError ParserError)), Map.empty)
   \<and> fst (upload_csv flat_directory Map.empty 1 ''sales.csv'' (Csv frame_missing_product))
       = Inl (Unhandled NotJsonCompliant)
   \<and> snd (upload_csv flat_directory Map.empty 1 ''sales.csv'' (Csv frame_missing_product))
         (file_path 1 ''sales.csv'') = Some (Csv frame_missing_product)"
proof -
  have n: "\<not> endswith ''notes.txt'' ''.csv''" and c: "endswith ''sales.csv'' ''.csv''"
    and x: "endswith ''x/y.csv'' ''.csv''"
    by (simp_all add: endswith_def)
  have m: "\<not> has_required frame_without_price"
    by (simp add: has_required_def example_frames)
  have g: "has_required frame_negative_units"
    "numeric (column frame_negative_units ''units_sold'')"
    "numeric (column frame_negative_units ''price'')"
    "\<not> no_negative (column frame_negative_units ''units_sold'')"
    by (simp_all add: eval_validate example_frames)
  have u: "validate Unparsable = Inl ParserError"
    by (simp add: validate_def)
  have v: "validate (Csv frame_missing_product) = Inr frame_missing_product"
    by (simp add: eval_validate frame_missing_product_def example_frames)
  have k: "list_ex is_nan (column frame_missing_product ''product_id'')"
    by (simp add: column_def frame_missing_product_def example_frames)
  have j: "fst (upload_csv flat_directory Map.empty 1 ''sales.csv'' (Csv frame_missing_product))
       = Inl (Unhandled NotJsonCompliant)"
    using upload_not_encodable [of "''sales.csv''" Map.empty 1 flat_directory
        "Csv frame_missing_product" frame_missing_product] c flat_sales v k
    by simp
  note t1 = upload_failure_leaves_no_file
    [of "''notes.txt''" flat_directory Map.empty 1 "Csv spec_sales" spec_sales ParserError
      "HTTPException 400 InvalidFileType"]
  note t2 = upload_failure_leaves_no_file
    [of "''x/y.csv''" flat_directory Map.empty 1 "Csv spec_sales" spec_sales ParserError
      "HTTPException 400 InvalidFileType"]
  note t3 = upload_failure_leaves_no_file
    [of "''sales.csv''" flat_directory Map.empty 1 "Csv frame_without_price" frame_without_price
      ParserError "HTTPException 400 InvalidFileType"]
  note t4 = upload_failure_leaves_no_file
    [of "''sales.csv''" flat_directory Map.empty 1 "Csv frame_negative_units" frame_negative_units
      ParserError "HTTPException 400 InvalidFileType"]
  note t5 = upload_failure_leaves_no_file
    [of "''sales.csv''" flat_directory Map.empty 1 Unparsable spec_sales ParserError
      "HTTPException 400 InvalidFileType"]
  note t6 = upload_failure_leaves_no_file
    [of "''sales.csv''" flat_directory Map.empty 1 "Csv frame_missing_product" spec_sales
      ParserError "Unhandled NotJsonCompliant"]
  have r1: "upload_csv flat_directory Map.empty 1 ''notes.txt'' (Csv spec_sales)
       = (Inl (HTTPException 400 InvalidFileType), Map.empty)"
    using t1 n by blast
  have r2: "upload_csv flat_directory Map.empty 1 ''x/y.csv'' (Csv spec_sales)
       = (Inl (Unhandled OSError), Map.empty)"
    using t2 x flat_slash by simp
  have r3: "upload_csv flat_directory Map.empty 1 ''sales.csv'' (Csv frame_without_price)
       = (Inl (HTTPException 400 (CsvValidationError
            (MissingColumns [''date'', ''product_id'', ''units_sold'']))), Map.empty)"
    using t3 c m flat_sales by (simp add: frame_without_price_def)
  have r4: "upload_csv flat_directory Map.empty 1 ''sales.csv'' (Csv frame_negative_units)
       = (Inl (HTTPException 400 (CsvValidationError NegativeValues)), Map.empty)"
    using t4 c g flat_sales by simp
  have r5: "upload_csv flat_directory Map.empty 1 ''sales.csv'' Unparsable
       = (Inl (HTTPException 400 (CsvValidationError ParserError)), Map.empty)"
    using t5 c u flat_sales by simp
  have r6: "snd (upload_csv flat_directory Map.empty 1 ''sales.csv'' (Csv frame_missing_product))
         (file_path 1 ''sales.csv'') = Some (Csv frame_missing_product)"
    using t6 j by auto
  show ?thesis
    using n x c m g(1) g(4) u flat_sales flat_slash r1 r2 r3 r4 r5 j r6 by simp
qed

text \<open>
  The claim as it is written gives every upload named \<^verbatim>\<open>.csv\<close> whose content fails
  validation the 400 validation error. The file is opened before the validation and
  outside its \<^verbatim>\<open>try\<close>: for the name \<^verbatim>\<open>x/y.csv\<close> the path points into a directory that
  does not exist, and the upload of a file with a negative units_sold ends in the
  unhandled exception of \<^verbatim>\<open>open\<close>, not in a validation error.
\<close>

theorem upload_unwritable_counterexample:
  "endswith ''x/y.csv'' ''.csv''
   \<and> validate (Csv frame_negative_units) = Inl NegativeValues
   \<and> file_path 1 ''x/y.csv'' = ''./uploads/user_1_x/y.csv''
   \<and> upload_csv flat_directory Map.empty 1 ''x/y.csv'' (Csv frame_negative_units)
       = (Inl (Unhandled OSError), Map.empty)"
proof -
  have "endswith ''x/y.csv'' ''.csv''"
    by (simp add: endswith_def)
  moreover have "validate (Csv frame_negative_units) = Inl NegativeValues"
    by (simp add: eval_validate example_frames)
  moreover have "file_path 1 ''x/y.csv'' = ''./uploads/user_1_x/y.csv''"
    by (simp add: file_path_def UPLOAD_DIRECTORY_def str_int_def str_nat.simps)
  moreover have "upload_csv flat_directory Map.empty 1 ''x/y.csv'' (Csv frame_negative_units)
       = (Inl (Unhandled OSError), Map.empty)"
    using upload_unwritable [of "''x/y.csv''" Map.empty 1 flat_directory] calculation(1) flat_slash
    by simp
  ultimately show ?thesis
    by blast
qed

section \<open>Successful uploads\<close>

text \<open>
  Claim C3, as amended. For every uploaded file named with the \<^verbatim>\<open>.csv\<close> suffix whose
  file can be written (it exists already or can be created), whose content parses as
  tabular data, contains the four columns date, product_id, units_sold and price, has
  no missing product_id, and whose units_sold and price columns hold numbers (or
  missing values) none of which is negative, the upload succeeds (status 200), the file
  is stored at its path, and the products of the response are the distinct product_id
  values of the file: the same set, each value once. When such a file has a missing
  product_id, the file is stored and the response cannot be encoded.
\<close>

theorem upload_valid_products:
  assumes "endswith fname ''.csv''"
    and "st (file_path uid fname) \<noteq> None \<or> can_open (file_path uid fname)"
    and "read_csv content = Inr df" and "has_required df"
    and "numeric (column df ''units_sold'')" and "numeric (column df ''price'')"
    and "no_negative (column df ''units_sold'')" and "no_negative (column df ''price'')"
  shows "(\<not> list_ex is_nan (column df ''product_id'') \<longrightarrow>
           (\<exists>resp. upload_csv can_open st uid fname content
                     = (Inr resp, st(file_path uid fname \<mapsto> content))
              \<and> filename resp = fname
              \<and> set (products resp) = set (column df ''product_id'')
              \<and> distinct (products resp)))
         \<and> (list_ex is_nan (column df ''product_id'') \<longrightarrow>
           upload_csv can_open st uid fname content
             = (Inl (Unhandled NotJsonCompliant), st(file_path uid fname \<mapsto> content)))"
proof -
  have v: "validate content = Inr df"
    using assms by (simp add: validate_ok)
  show ?thesis
  proof (intro conjI impI)
    assume "\<not> list_ex is_nan (column df ''product_id'')"
    with assms(1,2) v have "upload_csv can_open st uid fname content =
       (Inr \<lparr>message = ''CSV validated and saved successfully!'', filename = fname,
             products = unique (column df ''product_id'')\<rparr>,
        st(file_path uid fname \<mapsto> content))"
      by (rule upload_valid)
    then show "\<exists>resp. upload_csv can_open st uid fname content
                     = (Inr resp, st(file_path uid fname \<mapsto> content))
              \<and> filename resp = fname
              \<and> set (products resp) = set (column df ''product_id'')
              \<and> distinct (products resp)"
      by (simp add: set_unique distinct_unique)
  next
    assume "list_ex is_nan (column df ''product_id'')"
    with assms(1,2) v
    show "upload_csv can_open st uid fname content
             = (Inl (Unhandled NotJsonCompliant), st(file_path uid fname \<mapsto> content))"
      by (rule upload_not_encodable)
  qed
qed

theorem upload_valid_products_witness:
  "endswith ''sales.csv'' ''.csv'' \<and> flat_directory (file_path 1 ''sales.csv'')
   \<and> read_csv (Csv spec_sales) = Inr spec_sales
   \<and> has_required spec_sales
   \<and> numeric (column spec_sales ''units_sold'') \<and> numeric (column spec_sales ''price'')
   \<and> no_negative (column spec_sales ''units_sold'') \<and> no_negative (column spec_sales ''price'')
   \<and> \<not> list_ex is_nan (column spec_sales ''product_id'')
   \<and> (\<exists>resp. upload_csv flat_directory Map.empty 1 ''sales.csv'' (Csv spec_sales)
                 = (Inr resp, [file_path 1 ''sales.csv'' \<mapsto> Csv spec_sales])
          \<and> filename resp = ''sales.csv''
          \<and> set (products resp) = {CStr ''A'', CStr ''B''}
          \<and> distinct (products resp))
   \<and> read_csv (Csv frame_missing_product) = Inr frame_missing_product
   \<and> has_required frame_missing_product
   \<and> numeric (column frame_missing_product ''units_sold'')
   \<and> numeric (column frame_missing_product ''price'')
   \<and> no_negative (column frame_missing_product ''units_sold'')
   \<and> no_negative (column frame_missing_product ''price'')
   \<and> list_ex is_nan (column frame_missing_product ''product_id'')
   \<and> upload_csv flat_directory Map.empty 1 ''sales.csv'' (Csv frame_missing_product)
       = (Inl (Unhandled NotJsonCompliant), [file_path 1 ''sales.csv'' \<mapsto> Csv frame_missing_product])"
proof -
  have c: "endswith ''sales.csv'' ''.csv''"
    by (simp add: endswith_def)
  have w: "Map.empty (file_path 1 ''sales.csv'') \<noteq> None
             \<or> flat_directory (file_path 1 ''sales.csv'')"
    using flat_sales by simp
  have h: "read_csv (Csv spec_sales) = Inr spec_sales"
    "has_required spec_sales"
    "numeric (column spec_sales ''units_sold'')" "numeric (column spec_sales ''price'')"
    "no_negative (column spec_sales ''units_sold'')" "no_negative (column spec_sales ''price'')"
    by (simp_all add: eval_validate example_frames)
  have n: "\<not> list_ex is_nan (column spec_sales ''product_id'')"
    by (simp add: column_def example_frames)
  have s: "set (column spec_sales ''product_id'') = {CStr ''A'', CStr ''B''}"
    by (auto simp add: column_def example_frames)
  have h2: "read_csv (Csv frame_missing_product) = Inr frame_missing_product"
    "has_required frame_missing_product"
    "numeric (column frame_missing_product ''units_sold'')"
    "numeric (column frame_missing_product ''price'')"
    "no_negative (column frame_missing_product ''units_sold'')"
    "no_negative (column frame_missing_product ''price'')"
    by (simp_all add: eval_validate frame_missing_product_def example_frames)
  have n2: "list_ex is_nan (column frame_missing_product ''product_id'')"
    by (simp add: column_def frame_missing_product_def example_frames)
  note t1 = upload_valid_products [where can_open = flat_directory and st = Map.empty and uid = 1
      and fname = "''sales.csv''" and content = "Csv spec_sales" and df = spec_sales,
      OF c w h]
  note t2 = upload_valid_products [where can_open = flat_directory and st = Map.empty and uid = 1
      and fname = "''sales.csv''" and content = "Csv frame_missing_product"
      and df = frame_missing_product, OF c w h2]
  from t1 n have r1: "\<exists>resp. upload_csv flat_directory Map.empty 1 ''sales.csv'' (Csv spec_sales)
                 = (Inr resp, [file_path 1 ''sales.csv'' \<mapsto> Csv spec_sales])
          \<and> filename resp = ''sales.csv''
          \<and> set (products resp) = {CStr ''A'', CStr ''B''}
          \<and> distinct (products resp)"
    unfolding s by blast
  from t2 n2 have r2: "upload_csv flat_directory Map.empty 1 ''sales.csv'' (Csv frame_missing_product)
       = (Inl (Unhandled NotJsonCompliant), [file_path 1 ''sales.csv'' \<mapsto> Csv frame_missing_product])"
    by blast
  show ?thesis
    using c flat_sales h n r1 h2 n2 r2 by blast
qed

text \<open>
  The claim as it is written asks only for the absence of negative values. A file whose
  units_sold column is text has no negative value in it, yet the comparison with 0
  raises on it and the upload fails with status 400.
\<close>

theorem upload_text_column_counterexample:
  "endswith ''sales.csv'' ''.csv'' \<and> read_csv (Csv frame_text_units) = Inr frame_text_units
   \<and> has_required frame_text_units
   \<and> no_negative (column frame_text_units ''units_sold'')
   \<and> no_negative (column frame_text_units ''price'')
   \<and> flat_directory (file_path 1 ''sales.csv'')
   \<and> upload_csv flat_directory Map.empty 1 ''sales.csv'' (Csv frame_text_units)
       = (Inl (HTTPException 400 (CsvValidationError TypeError)), Map.empty)"
  using flat_sales by (simp add: upload_csv_def eval_validate example_frames)

section \<open>A failed upload over a stored file\<close>

text \<open>
  Claim C10. When a valid data set is stored under a (user, filename) key and a new
  upload to the same key fails validation, the response is the 400 error of the
  validation and afterwards no file exists at that key: the upload has overwritten the
  stored file and then deleted it, so the earlier data set is lost. Files at other
  paths are untouched.
\<close>

theorem failed_reupload_destroys_dataset:
  assumes "st (file_path uid fname) = Some old" and "validate old = Inr df_old"
    and "endswith fname ''.csv''" and "validate content = Inl e"
  shows "fst (upload_csv can_open st uid fname content)
           = Inl (HTTPException 400 (CsvValidationError e))
         \<and> snd (upload_csv can_open st uid fname content) (file_path uid fname) = None
         \<and> snd (upload_csv can_open st uid fname content) = st(file_path uid fname := None)"
  using assms by (simp add: upload_invalid)

theorem failed_reupload_destroys_dataset_witness:
  "snd (upload_csv flat_directory Map.empty 1 ''sales.csv'' (Csv spec_sales)) (file_path 1 ''sales.csv'')
     = Some (Csv spec_sales)
   \<and> validate (Csv spec_sales) = Inr spec_sales
   \<and> endswith ''sales.csv'' ''.csv''
   \<and> validate (Csv frame_negative_units) = Inl NegativeValues
   \<and> fst (upload_csv flat_directory (snd (upload_csv flat_directory Map.empty 1 ''sales.csv'' (Csv spec_sales))) 1
            ''sales.csv'' (Csv frame_negative_units))
       = Inl (HTTPException 400 (CsvValidationError NegativeValues))
   \<and> snd (upload_csv flat_directory (snd (upload_csv flat_directory Map.empty 1 ''sales.csv'' (Csv spec_sales))) 1
            ''sales.csv'' (Csv frame_negative_units)) (file_path 1 ''sales.csv'') = None"
proof -
  have c: "endswith ''sales.csv'' ''.csv''"
    by (simp add: endswith_def)
  have v: "validate (Csv spec_sales) = Inr spec_sales"
    by (simp add: eval_validate example_frames)
  have w: "validate (Csv frame_negative_units) = Inl NegativeValues"
    by (simp add: eval_validate example_frames)
  have s: "snd (upload_csv flat_directory Map.empty 1 ''sales.csv'' (Csv spec_sales)) (file_path 1 ''sales.csv'')
     = Some (Csv spec_sales)"
    using upload_valid [of "''sales.csv''" Map.empty 1 flat_directory "Csv spec_sales" spec_sales]
      c v flat_sales by (simp add: column_def example_frames)
  show ?thesis
    using failed_reupload_destroys_dataset
      [of "snd (upload_csv flat_directory Map.empty 1 ''sales.csv'' (Csv spec_sales))" 1
        "''sales.csv''" "Csv spec_sales" spec_sales "Csv frame_negative_units" NegativeValues
        flat_directory]
      s v c w by simp
qed

section \<open>The shared front of the forecast handlers\<close>

lemma sequence_length: "sequence xs = Inr vs \<Longrightarrow> length vs = length xs"
  by (induction xs arbitrary: vs) (auto split: sum.splits)

lemma has_required_columns:
  "has_required df \<Longrightarrow>
   ''date'' \<in> set (columns df) \<and> ''product_id'' \<in> set (columns df) \<and>
   ''units_sold'' \<in> set (columns df) \<and> ''price'' \<in> set (columns df)"
  by (simp add: has_required_def required_columns_def)

lemma prophet_df_of_stored:
  assumes "st (file_path uid fname) = Some content" and "read_csv content = Inr df"
    and "has_required df"
  shows "prophet_df_of td short st uid pid fname =
     (if product_rows df pid = [] then Inl (HTTPException 404 (ProductNotFound pid))
      else if length (product_rows df pid) < 30 then Inl (HTTPException 400 short)
      else (case sequence (map (\<lambda>r. td (r ''date'')) (product_rows df pid)) of
              Inl e \<Rightarrow> Inl (Unhandled e)
            | Inr dates \<Rightarrow> Inr (zip dates (map (\<lambda>r. r ''units_sold'') (product_rows df pid)))))"
  using assms has_required_columns [OF assms(3)] by (simp add: prophet_df_of_def Let_def)

lemma prophet_df_of_Inr:
  assumes "prophet_df_of td short st uid pid fname = Inr hist"
  shows "\<exists>content df dates.
           st (file_path uid fname) = Some content \<and> read_csv content = Inr df \<and>
           30 \<le> length (product_rows df pid) \<and>
           sequence (map (\<lambda>r. td (r ''date'')) (product_rows df pid)) = Inr dates \<and>
           hist = zip dates (map (\<lambda>r. r ''units_sold'') (product_rows df pid))"
  using assms
  by (auto simp add: prophet_df_of_def Let_def split: option.splits sum.splits if_splits)

lemma prophet_df_of_any_detail:
  assumes "prophet_df_of td short st uid pid fname = Inr hist"
  shows "prophet_df_of td short' st uid pid fname = Inr hist"
  using assms
  by (auto simp add: prophet_df_of_def Let_def split: option.splits sum.splits if_splits)

lemma get_forecast_after:
  assumes "prophet_df_of td NotEnoughData st uid pid fname = Inr hist"
  shows "get_forecast td prophet ops fmt0 st uid pid fname =
     (case prophet True hist 30 of
        Inl e \<Rightarrow> Inl (Unhandled e)
      | Inr forecast \<Rightarrow>
          (case generate_insight ops fmt0 pid (map snd hist) (map yhat forecast) of
             Inl e \<Rightarrow> Inl (Unhandled e)
           | Inr insight_text \<Rightarrow>
               Inr \<lparr>product_id = pid, insight = insight_text,
                    historical_data = map (\<lambda>(d, y). (DatetimeValue d, y)) hist,
                    forecast_data =
                      map (\<lambda>r. \<lparr>fp_ds = DatetimeValue (Timestamp (ds r)), fp_yhat = yhat r,
                                 fp_yhat_lower = yhat_lower r, fp_yhat_upper = yhat_upper r\<rparr>)
                        (tail 30 forecast)\<rparr>))"
  using assms by (simp add: get_forecast_def)

lemma export_after:
  assumes "prophet_df_of td NotEnoughDataToExport st uid pid fname = Inr hist"
  shows "export_forecast_csv td prophet strftime float_repr st uid pid fname =
     (case prophet True hist 30 of
        Inl e \<Rightarrow> Inl (Unhandled e)
      | Inr forecast \<Rightarrow>
          Inr \<lparr>media_type = ''text/csv'',
               content_disposition = ''attachment; filename=forecast_'' @ pid @ ''.csv'',
               body = to_csv csv_header (map (export_fields strftime float_repr) forecast)\<rparr>)"
  using assms by (simp add: export_forecast_csv_def)

lemma get_forecast_Inr:
  assumes "get_forecast td prophet ops fmt0 st uid pid fname = Inr resp"
  shows "\<exists>hist forecast text.
           prophet_df_of td NotEnoughData st uid pid fname = Inr hist \<and>
           prophet True hist 30 = Inr forecast \<and>
           generate_insight ops fmt0 pid (map snd hist) (map yhat forecast) = Inr text \<and>
           resp = \<lparr>product_id = pid, insight = text,
                    historical_data = map (\<lambda>(d, y). (DatetimeValue d, y)) hist,
                    forecast_data =
                      map (\<lambda>r. \<lparr>fp_ds = DatetimeValue (Timestamp (ds r)), fp_yhat = yhat r,
                                 fp_yhat_lower = yhat_lower r, fp_yhat_upper = yhat_upper r\<rparr>)
                        (tail 30 forecast)\<rparr>"
  using assms by (auto simp add: get_forecast_def split: sum.splits)

section \<open>The insight\<close>

lemma change_percent_of_spec: "change_percent_of ops h f = spec_change_percent ops h f"
  by (cases h) (simp_all add: change_percent_of_def spec_change_percent_def)

lemma generate_insight_spec:
  assumes "series_mean ops (tail 7 y) = Inr hist_avg"
  shows "generate_insight ops fmt0 pid y yhats =
     Inr (spec_insight ops fmt0 pid hist_avg (f_mean ops (map Fin (tail 7 yhats))))"
  using assms
  by (simp add: generate_insight_def spec_insight_def spec_trend_def change_percent_of_spec
      Let_def)

lemma generate_insight_Inr:
  assumes "generate_insight ops fmt0 pid y yhats = Inr msg"
  shows "\<exists>hist_avg. series_mean ops (tail 7 y) = Inr hist_avg"
  using assms by (cases "series_mean ops (tail 7 y)") (simp_all add: generate_insight_def)

lemma tail_map: "tail n (map f xs) = map f (tail n xs)"
  by (simp add: tail_def drop_map)

lemma length_tail: "length (tail n xs) = min n (length xs)"
  by (simp add: tail_def)

lemma series_mean_numbers: "series_mean ops (map CNum xs) = Inr (f_mean ops (map Fin xs))"
  by (simp add: series_mean_def list_ex_iff comp_def)

text \<open>
  Claim C1. For every forecast request that reaches insight generation, the insight is
  the message that the specification describes: hist_avg is the mean of units_sold over
  the last 7 rows of the product's history and fcst_avg the mean of yhat over the last 7
  rows of the whole forecast output (history and future together); when hist_avg is NaN
  or zero the change is +infinity for a positive fcst_avg and 0 otherwise, else it is
  (fcst_avg - hist_avg) / hist_avg * 100 in float arithmetic; and the branch is the
  first that matches among > 15, > 5, < -15, < -5 and otherwise stable. This holds for
  whatever the float operations and the mean of the library compute, so for binary64.
  With hist_avg = 100 and fcst_avg = 120, float arithmetic giving 20.0 for
  (120 - 100) / 100 * 100 as binary64 does, the message is the strong upward one, and
  with fcst_avg = 80, giving -20.0, the significant downward one.
\<close>

theorem insight_computation:
  "(get_forecast td prophet ops fmt0 st uid pid fname = Inr resp \<longrightarrow>
      (\<exists>hist forecast hist_avg.
          prophet_df_of td NotEnoughData st uid pid fname = Inr hist \<and>
          prophet True hist 30 = Inr forecast \<and>
          series_mean ops (tail 7 (map snd hist)) = Inr hist_avg \<and>
          insight resp =
            spec_insight ops fmt0 pid hist_avg
              (f_mean ops (map Fin (tail 7 (map yhat forecast))))))
   \<and> (series_mean ops (tail 7 y) = Inr hist_avg \<longrightarrow>
        generate_insight ops fmt0 pid y yhats =
          Inr (spec_insight ops fmt0 pid hist_avg (f_mean ops (map Fin (tail 7 yhats)))))
   \<and> series_mean ops (map CNum xs) = Inr (f_mean ops (map Fin xs))
   \<and> (series_mean ops (tail 7 y) = Inr (Fin 100) \<and>
       f_mean ops (map Fin (tail 7 yhats)) = Fin 120 \<and>
       f_mul ops (f_div ops (f_sub ops (Fin 120) (Fin 100)) (Fin 100)) (Fin 100) = Fin 20 \<longrightarrow>
        generate_insight ops fmt0 pid y yhats =
          Inr (''Product '' @ [CHR 0x27] @ pid @ [CHR 0x27] @ '' ''
                 @ trend_message fmt0 StrongUpward (Fin 20)))
   \<and> (series_mean ops (tail 7 y) = Inr (Fin 100) \<and>
       f_mean ops (map Fin (tail 7 yhats)) = Fin 80 \<and>
       f_mul ops (f_div ops (f_sub ops (Fin 80) (Fin 100)) (Fin 100)) (Fin 100) = Fin (- 20) \<longrightarrow>
        generate_insight ops fmt0 pid y yhats =
          Inr (''Product '' @ [CHR 0x27] @ pid @ [CHR 0x27] @ '' ''
                 @ trend_message fmt0 SignificantDownward (Fin (- 20))))"
proof (intro conjI impI)
  assume "get_forecast td prophet ops fmt0 st uid pid fname = Inr resp"
  then obtain hist forecast msg where h:
    "prophet_df_of td NotEnoughData st uid pid fname = Inr hist"
    "prophet True hist 30 = Inr forecast"
    "generate_insight ops fmt0 pid (map snd hist) (map yhat forecast) = Inr msg"
    "insight resp = msg"
    using get_forecast_Inr [of td prophet ops fmt0 st uid pid fname resp] by auto
  from h(3) obtain hist_avg where m: "series_mean ops (tail 7 (map snd hist)) = Inr hist_avg"
    using generate_insight_Inr by blast
  from h(3) have "msg =
      spec_insight ops fmt0 pid hist_avg (f_mean ops (map Fin (tail 7 (map yhat forecast))))"
    by (simp add: generate_insight_spec [OF m])
  with h m show "\<exists>hist forecast hist_avg.
          prophet_df_of td NotEnoughData st uid pid fname = Inr hist \<and>
          prophet True hist 30 = Inr forecast \<and>
          series_mean ops (tail 7 (map snd hist)) = Inr hist_avg \<and>
          insight resp =
            spec_insight ops fmt0 pid hist_avg
              (f_mean ops (map Fin (tail 7 (map yhat forecast))))"
    by blast
next
  assume "series_mean ops (tail 7 y) = Inr hist_avg"
  then show "generate_insight ops fmt0 pid y yhats =
          Inr (spec_insight ops fmt0 pid hist_avg (f_mean ops (map Fin (tail 7 yhats))))"
    by (rule generate_insight_spec)
next
  show "series_mean ops (map CNum xs) = Inr (f_mean ops (map Fin xs))"
    by (rule series_mean_numbers)
next
  assume a: "series_mean ops (tail 7 y) = Inr (Fin 100) \<and>
       f_mean ops (map Fin (tail 7 yhats)) = Fin 120 \<and>
       f_mul ops (f_div ops (f_sub ops (Fin 120) (Fin 100)) (Fin 100)) (Fin 100) = Fin 20"
  then have "generate_insight ops fmt0 pid y yhats
      = Inr (spec_insight ops fmt0 pid (Fin 100) (Fin 120))"
    using generate_insight_spec [of ops y "Fin 100" fmt0 pid yhats] by simp
  with a show "generate_insight ops fmt0 pid y yhats =
          Inr (''Product '' @ [CHR 0x27] @ pid @ [CHR 0x27] @ '' ''
                 @ trend_message fmt0 StrongUpward (Fin 20))"
    by (simp add: spec_insight_def spec_change_percent_def spec_trend_def)
next
  assume a: "series_mean ops (tail 7 y) = Inr (Fin 100) \<and>
       f_mean ops (map Fin (tail 7 yhats)) = Fin 80 \<and>
       f_mul ops (f_div ops (f_sub ops (Fin 80) (Fin 100)) (Fin 100)) (Fin 100) = Fin (- 20)"
  then have "generate_insight ops fmt0 pid y yhats
      = Inr (spec_insight ops fmt0 pid (Fin 100) (Fin 80))"
    using generate_insight_spec [of ops y "Fin 100" fmt0 pid yhats] by simp
  with a show "generate_insight ops fmt0 pid y yhats =
          Inr (''Product '' @ [CHR 0x27] @ pid @ [CHR 0x27] @ '' ''
                 @ trend_message fmt0 SignificantDownward (Fin (- 20)))"
    by (simp add: spec_insight_def spec_change_percent_def spec_trend_def)
qed

theorem insight_computation_witness:
  "(\<exists>resp hist forecast hist_avg.
      get_forecast to_datetime_iso naive_forecaster exact_ops fmt0_half_even
        [file_path 1 ''sales.csv'' \<mapsto> Csv frame_unsorted] 1 ''A'' ''sales.csv'' = Inr resp \<and>
      prophet_df_of to_datetime_iso NotEnoughData
        [file_path 1 ''sales.csv'' \<mapsto> Csv frame_unsorted] 1 ''A'' ''sales.csv'' = Inr hist \<and>
      naive_forecaster True hist 30 = Inr forecast \<and>
      series_mean exact_ops (tail 7 (map snd hist)) = Inr hist_avg \<and>
      insight resp = spec_insight exact_ops fmt0_half_even ''A'' hist_avg
                       (f_mean exact_ops (map Fin (tail 7 (map yhat forecast)))) \<and>
      insight resp = ''Product '' @ [CHR 0x27] @ ''A'' @ [CHR 0x27]
        @ '' is predicted to remain stable. Maintain current inventory and marketing strategies.'')
   \<and> series_mean exact_ops (tail 7 (replicate 7 (CNum 100))) = Inr (Fin 100)
   \<and> f_mean exact_ops (map Fin (tail 7 (replicate 7 120))) = Fin 120
   \<and> f_mean exact_ops (map Fin (tail 7 (replicate 7 80))) = Fin 80
   \<and> f_mul exact_ops (f_div exact_ops (f_sub exact_ops (Fin 120) (Fin 100)) (Fin 100)) (Fin 100)
       = Fin 20
   \<and> f_mul exact_ops (f_div exact_ops (f_sub exact_ops (Fin 80) (Fin 100)) (Fin 100)) (Fin 100)
       = Fin (- 20)
   \<and> generate_insight exact_ops fmt0_half_even ''A'' (replicate 7 (CNum 100)) (replicate 7 120) =
       Inr (''Product '' @ [CHR 0x27] @ ''A'' @ [CHR 0x27]
            @ '' shows a strong upward trend. Sales are predicted to increase by approximately 20% over the next month. Consider increasing stock to meet expected demand.'')
   \<and> generate_insight exact_ops fmt0_half_even ''A'' (replicate 7 (CNum 100)) (replicate 7 80) =
       Inr (''Product '' @ [CHR 0x27] @ ''A'' @ [CHR 0x27]
            @ '' shows a significant downward trend, with sales predicted to decrease by 20%. Consider running promotions or reducing inventory.'')"
proof -
  let ?st = "[file_path 1 ''sales.csv'' \<mapsto> Csv frame_unsorted]"
  let ?g = "get_forecast to_datetime_iso naive_forecaster exact_ops fmt0_half_even ?st 1 ''A''
              ''sales.csv''"
  have "case ?g of Inl e \<Rightarrow> False
        | Inr r \<Rightarrow> insight r = ''Product '' @ [CHR 0x27] @ ''A'' @ [CHR 0x27]
            @ '' is predicted to remain stable. Maintain current inventory and marketing strategies.''"
    by code_simp
  then obtain resp where r: "?g = Inr resp"
    "insight resp = ''Product '' @ [CHR 0x27] @ ''A'' @ [CHR 0x27]
        @ '' is predicted to remain stable. Maintain current inventory and marketing strategies.''"
    by (cases ?g) auto
  have h: "series_mean exact_ops (tail 7 (replicate 7 (CNum 100))) = Inr (Fin 100)"
    by code_simp
  have f1: "f_mean exact_ops (map Fin (tail 7 (replicate 7 120))) = Fin 120"
    by code_simp
  have f2: "f_mean exact_ops (map Fin (tail 7 (replicate 7 80))) = Fin 80"
    by code_simp
  have a1: "f_mul exact_ops (f_div exact_ops (f_sub exact_ops (Fin 120) (Fin 100)) (Fin 100))
              (Fin 100) = Fin 20"
    by (simp add: exact_ops_def)
  have a2: "f_mul exact_ops (f_div exact_ops (f_sub exact_ops (Fin 80) (Fin 100)) (Fin 100))
              (Fin 100) = Fin (- 20)"
    by (simp add: exact_ops_def)
  have m1: "fmt0_half_even (Fin 20) = ''20''"
    by code_simp
  note t1 = insight_computation [of to_datetime_iso naive_forecaster exact_ops fmt0_half_even ?st 1
      "''A''" "''sales.csv''" resp "replicate 7 (CNum 100)" "Fin 100" "replicate 7 120" "[1]"]
  note t2 = insight_computation [of to_datetime_iso naive_forecaster exact_ops fmt0_half_even ?st 1
      "''A''" "''sales.csv''" resp "replicate 7 (CNum 100)" "Fin 100" "replicate 7 80" "[1]"]
  from t1 r(1) have e: "\<exists>hist forecast hist_avg.
      prophet_df_of to_datetime_iso NotEnoughData ?st 1 ''A'' ''sales.csv'' = Inr hist \<and>
      naive_forecaster True hist 30 = Inr forecast \<and>
      series_mean exact_ops (tail 7 (map snd hist)) = Inr hist_avg \<and>
      insight resp = spec_insight exact_ops fmt0_half_even ''A'' hist_avg
                       (f_mean exact_ops (map Fin (tail 7 (map yhat forecast))))"
    by blast
  from t1 h f1 a1 have g1: "generate_insight exact_ops fmt0_half_even ''A''
        (replicate 7 (CNum 100)) (replicate 7 120) =
       Inr (''Product '' @ [CHR 0x27] @ ''A'' @ [CHR 0x27] @ '' ''
                 @ trend_message fmt0_half_even StrongUpward (Fin 20))"
    by blast
  from t2 h f2 a2 have g2: "generate_insight exact_ops fmt0_half_even ''A''
        (replicate 7 (CNum 100)) (replicate 7 80) =
       Inr (''Product '' @ [CHR 0x27] @ ''A'' @ [CHR 0x27] @ '' ''
                 @ trend_message fmt0_half_even SignificantDownward (Fin (- 20)))"
    by blast
  from e r have first: "\<exists>resp hist forecast hist_avg.
      ?g = Inr resp \<and>
      prophet_df_of to_datetime_iso NotEnoughData ?st 1 ''A'' ''sales.csv'' = Inr hist \<and>
      naive_forecaster True hist 30 = Inr forecast \<and>
      series_mean exact_ops (tail 7 (map snd hist)) = Inr hist_avg \<and>
      insight resp = spec_insight exact_ops fmt0_half_even ''A'' hist_avg
                       (f_mean exact_ops (map Fin (tail 7 (map yhat forecast)))) \<and>
      insight resp = ''Product '' @ [CHR 0x27] @ ''A'' @ [CHR 0x27]
        @ '' is predicted to remain stable. Maintain current inventory and marketing strategies.''"
    by blast
  from g1 m1 have s1: "generate_insight exact_ops fmt0_half_even ''A''
        (replicate 7 (CNum 100)) (replicate 7 120) =
       Inr (''Product '' @ [CHR 0x27] @ ''A'' @ [CHR 0x27]
            @ '' shows a strong upward trend. Sales are predicted to increase by approximately 20% over the next month. Consider increasing stock to meet expected demand.'')"
    by simp
  from g2 m1 have s2: "generate_insight exact_ops fmt0_half_even ''A''
        (replicate 7 (CNum 100)) (replicate 7 80) =
       Inr (''Product '' @ [CHR 0x27] @ ''A'' @ [CHR 0x27]
            @ '' shows a significant downward trend, with sales predicted to decrease by 20%. Consider running promotions or reducing inventory.'')"
    by simp
  from first h f1 f2 a1 a2 s1 s2 show ?thesis
    by blast
qed

section \<open>The product and row-count checks\<close>

text \<open>
  Claim C2, as amended. A row of the data set matches a request when its product_id
  cell is a text cell equal to the requested product_id (a string); a cell that was
  read as a number matches no request, so on a file whose product_id column holds only
  numbers no row matches, whatever the request. For a forecast or export request on a
  stored file that has the required columns: when no row matches, the request fails
  with the 404 error for the product; otherwise, when fewer than 30 rows match, it
  fails with the 400 error for insufficient data; these two outcomes depend on the
  number of matching rows only. When 30 or more rows match, the dates of the matching
  rows are parsed: if that succeeds the forecasting function is invoked on the history,
  with daily seasonality and 30 periods, and if it raises, the request fails with that
  exception and the forecasting function is not reached.
\<close>

theorem product_row_checks:
  assumes "st (file_path uid fname) = Some content" and "read_csv content = Inr df"
    and "has_required df"
  shows
  "(product_rows df pid = [] \<longrightarrow>
      get_forecast td prophet ops fmt0 st uid pid fname = Inl (HTTPException 404 (ProductNotFound pid))
      \<and> export_forecast_csv td prophet strftime float_repr st uid pid fname
          = Inl (HTTPException 404 (ProductNotFound pid)))
   \<and> (product_rows df pid \<noteq> [] \<and> length (product_rows df pid) < 30 \<longrightarrow>
      get_forecast td prophet ops fmt0 st uid pid fname = Inl (HTTPException 400 NotEnoughData)
      \<and> export_forecast_csv td prophet strftime float_repr st uid pid fname
          = Inl (HTTPException 400 NotEnoughDataToExport))
   \<and> (30 \<le> length (product_rows df pid) \<and>
       sequence (map (\<lambda>r. td (r ''date'')) (product_rows df pid)) = Inr dates \<and>
       prophet True (zip dates (map (\<lambda>r. r ''units_sold'') (product_rows df pid))) 30 = out \<longrightarrow>
      get_forecast td prophet ops fmt0 st uid pid fname =
        (case out of
           Inl e \<Rightarrow> Inl (Unhandled e)
         | Inr forecast \<Rightarrow>
             (case generate_insight ops fmt0 pid (map (\<lambda>r. r ''units_sold'') (product_rows df pid))
                     (map yhat forecast) of
                Inl e \<Rightarrow> Inl (Unhandled e)
              | Inr insight_text \<Rightarrow>
                  Inr \<lparr>product_id = pid, insight = insight_text,
                       historical_data =
                         map (\<lambda>(d, y). (DatetimeValue d, y))
                           (zip dates (map (\<lambda>r. r ''units_sold'') (product_rows df pid))),
                       forecast_data =
                         map (\<lambda>r. \<lparr>fp_ds = DatetimeValue (Timestamp (ds r)), fp_yhat = yhat r,
                                    fp_yhat_lower = yhat_lower r, fp_yhat_upper = yhat_upper r\<rparr>)
                           (tail 30 forecast)\<rparr>))
      \<and> export_forecast_csv td prophet strftime float_repr st uid pid fname =
        (case out of
           Inl e \<Rightarrow> Inl (Unhandled e)
         | Inr forecast \<Rightarrow>
             Inr \<lparr>media_type = ''text/csv'',
                  content_disposition = ''attachment; filename=forecast_'' @ pid @ ''.csv'',
                  body = to_csv csv_header (map (export_fields strftime float_repr) forecast)\<rparr>))
   \<and> (30 \<le> length (product_rows df pid) \<and>
       sequence (map (\<lambda>r. td (r ''date'')) (product_rows df pid)) = Inl e \<longrightarrow>
      get_forecast td prophet ops fmt0 st uid pid fname = Inl (Unhandled e)
      \<and> export_forecast_csv td prophet strftime float_repr st uid pid fname = Inl (Unhandled e))
   \<and> product_rows df pid = filter (\<lambda>r. r ''product_id'' = CStr pid) (rows df)
   \<and> (numeric (column df ''product_id'') \<longrightarrow>
      product_rows df pid = []
      \<and> get_forecast td prophet ops fmt0 st uid pid fname
          = Inl (HTTPException 404 (ProductNotFound pid))
      \<and> export_forecast_csv td prophet strftime float_repr st uid pid fname
          = Inl (HTTPException 404 (ProductNotFound pid)))"
proof -
  have p: "prophet_df_of td short st uid pid fname =
     (if product_rows df pid = [] then Inl (HTTPException 404 (ProductNotFound pid))
      else if length (product_rows df pid) < 30 then Inl (HTTPException 400 short)
      else (case sequence (map (\<lambda>r. td (r ''date'')) (product_rows df pid)) of
              Inl e \<Rightarrow> Inl (Unhandled e)
            | Inr dates \<Rightarrow> Inr (zip dates (map (\<lambda>r. r ''units_sold'') (product_rows df pid)))))"
    for short
    using assms by (rule prophet_df_of_stored)
  show ?thesis
  proof (intro conjI impI)
    assume "product_rows df pid = []"
    then show "get_forecast td prophet ops fmt0 st uid pid fname
        = Inl (HTTPException 404 (ProductNotFound pid))"
      and "export_forecast_csv td prophet strftime float_repr st uid pid fname
        = Inl (HTTPException 404 (ProductNotFound pid))"
      by (simp_all add: get_forecast_def export_forecast_csv_def p)
  next
    assume "product_rows df pid \<noteq> [] \<and> length (product_rows df pid) < 30"
    then show "get_forecast td prophet ops fmt0 st uid pid fname = Inl (HTTPException 400 NotEnoughData)"
      and "export_forecast_csv td prophet strftime float_repr st uid pid fname
        = Inl (HTTPException 400 NotEnoughDataToExport)"
      by (simp_all add: get_forecast_def export_forecast_csv_def p)
  next
    assume a: "30 \<le> length (product_rows df pid) \<and>
       sequence (map (\<lambda>r. td (r ''date'')) (product_rows df pid)) = Inr dates \<and>
       prophet True (zip dates (map (\<lambda>r. r ''units_sold'') (product_rows df pid))) 30 = out"
    let ?hist = "zip dates (map (\<lambda>r. r ''units_sold'') (product_rows df pid))"
    from a have ne: "product_rows df pid \<noteq> []" and ge: "\<not> length (product_rows df pid) < 30"
      by auto
    from a have len: "length dates = length (product_rows df pid)"
      using sequence_length [of "map (\<lambda>r. td (r ''date'')) (product_rows df pid)" dates] by simp
    then have sn: "map snd ?hist = map (\<lambda>r. r ''units_sold'') (product_rows df pid)"
      by simp
    have h: "prophet_df_of td short st uid pid fname = Inr ?hist" for short
      using a ne ge by (simp add: p)
    show "get_forecast td prophet ops fmt0 st uid pid fname =
        (case out of
           Inl e \<Rightarrow> Inl (Unhandled e)
         | Inr forecast \<Rightarrow>
             (case generate_insight ops fmt0 pid (map (\<lambda>r. r ''units_sold'') (product_rows df pid))
                     (map yhat forecast) of
                Inl e \<Rightarrow> Inl (Unhandled e)
              | Inr insight_text \<Rightarrow>
                  Inr \<lparr>product_id = pid, insight = insight_text,
                       historical_data =
                         map (\<lambda>(d, y). (DatetimeValue d, y))
                           (zip dates (map (\<lambda>r. r ''units_sold'') (product_rows df pid))),
                       forecast_data =
                         map (\<lambda>r. \<lparr>fp_ds = DatetimeValue (Timestamp (ds r)), fp_yhat = yhat r,
                                    fp_yhat_lower = yhat_lower r, fp_yhat_upper = yhat_upper r\<rparr>)
                           (tail 30 forecast)\<rparr>))"
      using a unfolding get_forecast_after [OF h] sn by simp
    show "export_forecast_csv td prophet strftime float_repr st uid pid fname =
        (case out of
           Inl e \<Rightarrow> Inl (Unhandled e)
         | Inr forecast \<Rightarrow>
             Inr \<lparr>media_type = ''text/csv'',
                  content_disposition = ''attachment; filename=forecast_'' @ pid @ ''.csv'',
                  body = to_csv csv_header (map (export_fields strftime float_repr) forecast)\<rparr>)"
      using a unfolding export_after [OF h] by simp
  next
    assume a: "30 \<le> length (product_rows df pid) \<and>
       sequence (map (\<lambda>r. td (r ''date'')) (product_rows df pid)) = Inl e"
    then have ne: "product_rows df pid \<noteq> []" and ge: "\<not> length (product_rows df pid) < 30"
      by auto
    with a show "get_forecast td prophet ops fmt0 st uid pid fname = Inl (Unhandled e)"
      and "export_forecast_csv td prophet strftime float_repr st uid pid fname = Inl (Unhandled e)"
      by (simp_all add: get_forecast_def export_forecast_csv_def p)
  next
    show "product_rows df pid = filter (\<lambda>r. r ''product_id'' = CStr pid) (rows df)"
      by (simp add: product_rows_def)
  next
    assume "numeric (column df ''product_id'')"
    then have "r ''product_id'' \<noteq> CStr pid" if "r \<in> set (rows df)" for r
      using that by (auto simp add: numeric_def column_def list_all_iff)
    then show n: "product_rows df pid = []"
      by (simp add: product_rows_def filter_empty_conv)
    then show "get_forecast td prophet ops fmt0 st uid pid fname
        = Inl (HTTPException 404 (ProductNotFound pid))"
      and "export_forecast_csv td prophet strftime float_repr st uid pid fname
        = Inl (HTTPException 404 (ProductNotFound pid))"
      by (simp_all add: get_forecast_def export_forecast_csv_def p)
  qed
qed

theorem product_row_checks_witness:
  "[file_path 1 ''sales.csv'' \<mapsto> Csv spec_sales] (file_path 1 ''sales.csv'') = Some (Csv spec_sales)
   \<and> read_csv (Csv spec_sales) = Inr spec_sales \<and> has_required spec_sales
   \<and> product_rows spec_sales ''Z'' = []
   \<and> get_forecast to_datetime_iso naive_forecaster exact_ops fmt0_half_even
        [file_path 1 ''sales.csv'' \<mapsto> Csv spec_sales] 1 ''Z'' ''sales.csv''
       = Inl (HTTPException 404 (ProductNotFound ''Z''))
   \<and> length (product_rows spec_sales ''A'') = 2
   \<and> get_forecast to_datetime_iso naive_forecaster exact_ops fmt0_half_even
        [file_path 1 ''sales.csv'' \<mapsto> Csv spec_sales] 1 ''A'' ''sales.csv''
       = Inl (HTTPException 400 NotEnoughData)
   \<and> export_forecast_csv to_datetime_iso naive_forecaster strftime_ymd float_repr_integral
        [file_path 1 ''sales.csv'' \<mapsto> Csv spec_sales] 1 ''A'' ''sales.csv''
       = Inl (HTTPException 400 NotEnoughDataToExport)
   \<and> has_required frame_unsorted \<and> length (product_rows frame_unsorted ''A'') = 30
   \<and> sequence (map (\<lambda>r. to_datetime_iso (r ''date'')) (product_rows frame_unsorted ''A''))
       = Inr (Timestamp 1704153600000000000 # replicate 29 (Timestamp 1704067200000000000))
   \<and> export_forecast_csv to_datetime_iso naive_forecaster strftime_ymd float_repr_integral
        [file_path 1 ''sales.csv'' \<mapsto> Csv frame_unsorted] 1 ''A'' ''sales.csv''
       = (case naive_forecaster True
                 (zip (Timestamp 1704153600000000000 # replicate 29 (Timestamp 1704067200000000000))
                    (map (\<lambda>r. r ''units_sold'') (product_rows frame_unsorted ''A''))) 30 of
            Inl e \<Rightarrow> Inl (Unhandled e)
          | Inr forecast \<Rightarrow>
              Inr \<lparr>media_type = ''text/csv'',
                   content_disposition = ''attachment; filename=forecast_'' @ ''A'' @ ''.csv'',
                   body = to_csv csv_header
                            (map (export_fields strftime_ymd float_repr_integral) forecast)\<rparr>)
   \<and> has_required frame_bad_dates \<and> length (product_rows frame_bad_dates ''A'') = 30
   \<and> sequence (map (\<lambda>r. to_datetime_iso (r ''date'')) (product_rows frame_bad_dates ''A''))
       = Inl DateParseError
   \<and> get_forecast to_datetime_iso naive_forecaster exact_ops fmt0_half_even
        [file_path 1 ''sales.csv'' \<mapsto> Csv frame_bad_dates] 1 ''A'' ''sales.csv''
       = Inl (Unhandled DateParseError)
   \<and> has_required frame_numeric_ids \<and> numeric (column frame_numeric_ids ''product_id'')
   \<and> length (rows frame_numeric_ids) = 30
   \<and> get_forecast to_datetime_iso naive_forecaster exact_ops fmt0_half_even
        [file_path 1 ''sales.csv'' \<mapsto> Csv frame_numeric_ids] 1 ''101'' ''sales.csv''
       = Inl (HTTPException 404 (ProductNotFound ''101''))"
proof -
  let ?p = "file_path 1 ''sales.csv''"
  have q: "has_required frame_numeric_ids" "numeric (column frame_numeric_ids ''product_id'')"
    "length (rows frame_numeric_ids) = 30"
    by (simp_all add: has_required_def numeric_def column_def frame_numeric_ids_def
        example_frames list_all_iff)
  note t5 = product_row_checks [of "[?p \<mapsto> Csv frame_numeric_ids]" 1 "''sales.csv''"
      "Csv frame_numeric_ids" frame_numeric_ids "''101''" to_datetime_iso naive_forecaster
      exact_ops fmt0_half_even strftime_ymd float_repr_integral "[]" "Inl FitError" DateParseError]
  have c5: "get_forecast to_datetime_iso naive_forecaster exact_ops fmt0_half_even
        [?p \<mapsto> Csv frame_numeric_ids] 1 ''101'' ''sales.csv''
       = Inl (HTTPException 404 (ProductNotFound ''101''))"
    using t5 q by simp
  let ?dates = "Timestamp 1704153600000000000 # replicate 29 (Timestamp 1704067200000000000)"
  have r: "has_required spec_sales" "has_required frame_unsorted" "has_required frame_bad_dates"
    by (simp_all add: has_required_def frame_unsorted_def frame_bad_dates_def example_frames)
  have z: "product_rows spec_sales ''Z'' = []"
    by code_simp
  have a: "length (product_rows spec_sales ''A'') = 2"
    by code_simp
  have u: "length (product_rows frame_unsorted ''A'') = 30"
    by code_simp
  have su: "sequence (map (\<lambda>r. to_datetime_iso (r ''date'')) (product_rows frame_unsorted ''A''))
       = Inr ?dates"
    by code_simp
  have b: "length (product_rows frame_bad_dates ''A'') = 30"
    by code_simp
  have sb: "sequence (map (\<lambda>r. to_datetime_iso (r ''date'')) (product_rows frame_bad_dates ''A''))
       = Inl DateParseError"
    by code_simp
  note t1 = product_row_checks [of "[?p \<mapsto> Csv spec_sales]" 1 "''sales.csv''" "Csv spec_sales"
      spec_sales "''Z''" to_datetime_iso naive_forecaster exact_ops fmt0_half_even strftime_ymd
      float_repr_integral "[]" "Inl FitError" DateParseError]
  note t2 = product_row_checks [of "[?p \<mapsto> Csv spec_sales]" 1 "''sales.csv''" "Csv spec_sales"
      spec_sales "''A''" to_datetime_iso naive_forecaster exact_ops fmt0_half_even strftime_ymd
      float_repr_integral "[]" "Inl FitError" DateParseError]
  note t3 = product_row_checks [of "[?p \<mapsto> Csv frame_unsorted]" 1 "''sales.csv''"
      "Csv frame_unsorted" frame_unsorted "''A''" to_datetime_iso naive_forecaster exact_ops
      fmt0_half_even       strftime_ymd float_repr_integral ?dates
      "naive_forecaster True
         (zip ?dates (map (\<lambda>r. r ''units_sold'') (product_rows frame_unsorted ''A''))) 30"
      DateParseError]
  note t4 = product_row_checks [of "[?p \<mapsto> Csv frame_bad_dates]" 1 "''sales.csv''"
      "Csv frame_bad_dates" frame_bad_dates "''A''" to_datetime_iso naive_forecaster
      exact_ops fmt0_half_even strftime_ymd float_repr_integral "[]" "Inl FitError" DateParseError]
  have c1: "get_forecast to_datetime_iso naive_forecaster exact_ops fmt0_half_even
        [?p \<mapsto> Csv spec_sales] 1 ''Z'' ''sales.csv''
       = Inl (HTTPException 404 (ProductNotFound ''Z''))"
    using t1 r z by simp
  have c2: "get_forecast to_datetime_iso naive_forecaster exact_ops fmt0_half_even
        [?p \<mapsto> Csv spec_sales] 1 ''A'' ''sales.csv'' = Inl (HTTPException 400 NotEnoughData)"
    "export_forecast_csv to_datetime_iso naive_forecaster strftime_ymd float_repr_integral
        [?p \<mapsto> Csv spec_sales] 1 ''A'' ''sales.csv'' = Inl (HTTPException 400 NotEnoughDataToExport)"
    using t2 r a by auto
  have c3: "export_forecast_csv to_datetime_iso naive_forecaster strftime_ymd float_repr_integral
        [?p \<mapsto> Csv frame_unsorted] 1 ''A'' ''sales.csv''
       = (case naive_forecaster True
                 (zip ?dates (map (\<lambda>r. r ''units_sold'') (product_rows frame_unsorted ''A''))) 30 of
            Inl e \<Rightarrow> Inl (Unhandled e)
          | Inr forecast \<Rightarrow>
              Inr \<lparr>media_type = ''text/csv'',
                   content_disposition = ''attachment; filename=forecast_'' @ ''A'' @ ''.csv'',
                   body = to_csv csv_header
                            (map (export_fields strftime_ymd float_repr_integral) forecast)\<rparr>)"
    using t3 r u su by simp
  have c4: "get_forecast to_datetime_iso naive_forecaster exact_ops fmt0_half_even
        [?p \<mapsto> Csv frame_bad_dates] 1 ''A'' ''sales.csv'' = Inl (Unhandled DateParseError)"
    using t4 r b sb by simp
  show ?thesis
    using r z a u su b sb c1 c2 c3 c4 q c5 by simp
qed

text \<open>
  The claim as it is written makes the number of matching rows the only criterion for
  reaching the forecasting function. Thirty matching rows whose date is the text
  \<^verbatim>\<open>notadate\<close> pass both checks, and then the date parsing raises: both handlers end
  with an unhandled exception and no forecast is made.
\<close>

theorem unparsable_dates_counterexample:
  "length (product_rows frame_bad_dates ''A'') = 30
   \<and> validate (Csv frame_bad_dates) = Inr frame_bad_dates
   \<and> get_forecast to_datetime_iso naive_forecaster exact_ops fmt0_half_even
        [file_path 1 ''sales.csv'' \<mapsto> Csv frame_bad_dates] 1 ''A'' ''sales.csv''
       = Inl (Unhandled DateParseError)
   \<and> export_forecast_csv to_datetime_iso naive_forecaster strftime_ymd float_repr_integral
        [file_path 1 ''sales.csv'' \<mapsto> Csv frame_bad_dates] 1 ''A'' ''sales.csv''
       = Inl (Unhandled DateParseError)"
proof -
  have "length (product_rows frame_bad_dates ''A'') = 30"
    by code_simp
  moreover have "get_forecast to_datetime_iso naive_forecaster exact_ops fmt0_half_even
        [file_path 1 ''sales.csv'' \<mapsto> Csv frame_bad_dates] 1 ''A'' ''sales.csv''
       = Inl (Unhandled DateParseError)"
    by code_simp
  moreover have "export_forecast_csv to_datetime_iso naive_forecaster strftime_ymd
        float_repr_integral [file_path 1 ''sales.csv'' \<mapsto> Csv frame_bad_dates] 1 ''A'' ''sales.csv''
       = Inl (Unhandled DateParseError)"
    by code_simp
  moreover have "validate (Csv frame_bad_dates) = Inr frame_bad_dates"
    by (rule validate_ok)
      (simp_all add: has_required_def numeric_def no_negative_def column_def list_all_iff
        frame_bad_dates_def example_frames)
  ultimately show ?thesis
    by blast
qed

section \<open>What the forecasting function receives\<close>

text \<open>
  Claim C8, as amended. For every forecast or export request that passes the product
  and row-count checks and whose dates parse, the (date, units_sold) sequence handed to
  the external forecasting function is the sequence of the matching rows in the order
  in which the file stores them, each with its parsed date and its units_sold (the
  handlers do not sort it); the function is configured for daily seasonality, and 30
  future periods are requested. Both handlers hand over the same sequence.
\<close>

theorem forecaster_input:
  assumes "prophet_df_of td NotEnoughData st uid pid fname = Inr hist"
  shows "\<exists>content df.
      st (file_path uid fname) = Some content \<and> read_csv content = Inr df \<and>
      30 \<le> length (product_rows df pid) \<and>
      product_rows df pid = filter (\<lambda>r. r ''product_id'' = CStr pid) (rows df) \<and>
      sequence (map (\<lambda>r. td (r ''date'')) (product_rows df pid)) = Inr (map fst hist) \<and>
      map snd hist = map (\<lambda>r. r ''units_sold'') (product_rows df pid) \<and>
      prophet_df_of td NotEnoughDataToExport st uid pid fname = Inr hist \<and>
      get_forecast td prophet ops fmt0 st uid pid fname =
        (case prophet True hist 30 of
           Inl e \<Rightarrow> Inl (Unhandled e)
         | Inr forecast \<Rightarrow>
             (case generate_insight ops fmt0 pid (map snd hist) (map yhat forecast) of
                Inl e \<Rightarrow> Inl (Unhandled e)
              | Inr insight_text \<Rightarrow>
                  Inr \<lparr>product_id = pid, insight = insight_text,
                       historical_data = map (\<lambda>(d, y). (DatetimeValue d, y)) hist,
                       forecast_data = map forecast_point_of (tail 30 forecast)\<rparr>)) \<and>
      export_forecast_csv td prophet strftime float_repr st uid pid fname =
        (case prophet True hist 30 of
           Inl e \<Rightarrow> Inl (Unhandled e)
         | Inr forecast \<Rightarrow>
             Inr \<lparr>media_type = ''text/csv'',
                  content_disposition = ''attachment; filename=forecast_'' @ pid @ ''.csv'',
                  body = to_csv csv_header (map (export_fields strftime float_repr) forecast)\<rparr>)"
proof -
  from prophet_df_of_Inr [OF assms] obtain content df dates where c:
    "st (file_path uid fname) = Some content" "read_csv content = Inr df"
    "30 \<le> length (product_rows df pid)"
    "sequence (map (\<lambda>r. td (r ''date'')) (product_rows df pid)) = Inr dates"
    "hist = zip dates (map (\<lambda>r. r ''units_sold'') (product_rows df pid))"
    by blast
  from c(4) have len: "length dates = length (product_rows df pid)"
    using sequence_length [of "map (\<lambda>r. td (r ''date'')) (product_rows df pid)" dates] by simp
  with c(5) have f: "map fst hist = dates"
    and s: "map snd hist = map (\<lambda>r. r ''units_sold'') (product_rows df pid)"
    by simp_all
  have e: "prophet_df_of td NotEnoughDataToExport st uid pid fname = Inr hist"
    using assms by (rule prophet_df_of_any_detail)
  have p: "(\<lambda>r. \<lparr>fp_ds = DatetimeValue (Timestamp (ds r)), fp_yhat = yhat r,
                  fp_yhat_lower = yhat_lower r, fp_yhat_upper = yhat_upper r\<rparr>) = forecast_point_of"
    by (simp add: fun_eq_iff forecast_point_of_def)
  have g: "get_forecast td prophet ops fmt0 st uid pid fname =
        (case prophet True hist 30 of
           Inl e \<Rightarrow> Inl (Unhandled e)
         | Inr forecast \<Rightarrow>
             (case generate_insight ops fmt0 pid (map snd hist) (map yhat forecast) of
                Inl e \<Rightarrow> Inl (Unhandled e)
              | Inr insight_text \<Rightarrow>
                  Inr \<lparr>product_id = pid, insight = insight_text,
                       historical_data = map (\<lambda>(d, y). (DatetimeValue d, y)) hist,
                       forecast_data = map forecast_point_of (tail 30 forecast)\<rparr>))"
    unfolding get_forecast_after [OF assms] p ..
  note x = export_after [OF e, of prophet strftime float_repr]
  from c(1,2,3) c(4) [folded f] s e g x show ?thesis
    by (auto simp add: product_rows_def)
qed

lemma history_of_frame_unsorted:
  "prophet_df_of to_datetime_iso NotEnoughData
     [file_path 1 ''sales.csv'' \<mapsto> Csv frame_unsorted] 1 ''A'' ''sales.csv''
   = Inr (zip (Timestamp 1704153600000000000 # replicate 29 (Timestamp 1704067200000000000))
            (replicate 30 (CNum 3)))"
proof -
  have r: "has_required frame_unsorted"
    by (simp add: has_required_def frame_unsorted_def example_frames)
  have u: "product_rows frame_unsorted ''A'' \<noteq> []" "\<not> length (product_rows frame_unsorted ''A'') < 30"
    by code_simp+
  have s: "sequence (map (\<lambda>r. to_datetime_iso (r ''date'')) (product_rows frame_unsorted ''A''))
       = Inr (Timestamp 1704153600000000000 # replicate 29 (Timestamp 1704067200000000000))"
    by code_simp
  have m: "map (\<lambda>r. r ''units_sold'') (product_rows frame_unsorted ''A'') = replicate 30 (CNum 3)"
    by code_simp
  have f: "[file_path 1 ''sales.csv'' \<mapsto> Csv frame_unsorted] (file_path 1 ''sales.csv'')
          = Some (Csv frame_unsorted)"
    by simp
  have c: "read_csv (Csv frame_unsorted) = Inr frame_unsorted"
    by simp
  note p = prophet_df_of_stored [where st = "[file_path 1 ''sales.csv'' \<mapsto> Csv frame_unsorted]"
      and uid = 1 and fname = "''sales.csv''" and content = "Csv frame_unsorted"
      and df = frame_unsorted and td = to_datetime_iso and short = NotEnoughData
      and pid = "''A''"]
  show ?thesis
    unfolding p [OF f c r] using u s m by simp
qed

theorem forecaster_input_witness:
  "prophet_df_of to_datetime_iso NotEnoughData
     [file_path 1 ''sales.csv'' \<mapsto> Csv frame_unsorted] 1 ''A'' ''sales.csv''
   = Inr (zip (Timestamp 1704153600000000000 # replicate 29 (Timestamp 1704067200000000000))
            (replicate 30 (CNum 3)))
   \<and> export_forecast_csv to_datetime_iso naive_forecaster strftime_ymd float_repr_integral
        [file_path 1 ''sales.csv'' \<mapsto> Csv frame_unsorted] 1 ''A'' ''sales.csv''
     = (case naive_forecaster True
               (zip (Timestamp 1704153600000000000 # replicate 29 (Timestamp 1704067200000000000))
                  (replicate 30 (CNum 3))) 30 of
          Inl e \<Rightarrow> Inl (Unhandled e)
        | Inr forecast \<Rightarrow>
            Inr \<lparr>media_type = ''text/csv'',
                 content_disposition = ''attachment; filename=forecast_'' @ ''A'' @ ''.csv'',
                 body = to_csv csv_header
                          (map (export_fields strftime_ymd float_repr_integral) forecast)\<rparr>)
   \<and> map snd (zip (Timestamp 1704153600000000000 # replicate 29 (Timestamp 1704067200000000000))
                 (replicate 30 (CNum 3)))
     = map (\<lambda>r. r ''units_sold'') (product_rows frame_unsorted ''A'')"
proof -
  let ?st = "[file_path 1 ''sales.csv'' \<mapsto> Csv frame_unsorted]"
  let ?h = "zip (Timestamp 1704153600000000000 # replicate 29 (Timestamp 1704067200000000000))
            (replicate 30 (CNum 3))"
  from forecaster_input [OF history_of_frame_unsorted, of naive_forecaster exact_ops fmt0_half_even strftime_ymd
      float_repr_integral]
  obtain content df where c: "?st (file_path 1 ''sales.csv'') = Some content"
    "read_csv content = Inr df"
    "map snd ?h = map (\<lambda>r. r ''units_sold'') (product_rows df ''A'')"
    "export_forecast_csv to_datetime_iso naive_forecaster strftime_ymd float_repr_integral
        ?st 1 ''A'' ''sales.csv''
     = (case naive_forecaster True ?h 30 of
          Inl e \<Rightarrow> Inl (Unhandled e)
        | Inr forecast \<Rightarrow>
            Inr \<lparr>media_type = ''text/csv'',
                 content_disposition = ''attachment; filename=forecast_'' @ ''A'' @ ''.csv'',
                 body = to_csv csv_header
                          (map (export_fields strftime_ymd float_repr_integral) forecast)\<rparr>)"
    by blast
  from c(1) have "content = Csv frame_unsorted"
    by simp
  with c(2) have d: "df = frame_unsorted"
    by simp
  have m: "map snd ?h = map (\<lambda>r. r ''units_sold'') (product_rows frame_unsorted ''A'')"
    using c(3) unfolding d .
  show ?thesis
    by (intro conjI) (rule history_of_frame_unsorted, rule c(4), rule m)
qed

text \<open>
  The claim as it is written has the sequence ordered by date. The rows of the product
  are handed over in the order of the file: with a file whose first row is dated
  2024-01-02 and whose other 29 rows are dated 2024-01-01, the request passes both
  checks and the history starts with the later date.
\<close>

theorem unsorted_history_counterexample:
  "prophet_df_of to_datetime_iso NotEnoughData
     [file_path 1 ''sales.csv'' \<mapsto> Csv frame_unsorted] 1 ''A'' ''sales.csv''
   = Inr (zip (Timestamp 1704153600000000000 # replicate 29 (Timestamp 1704067200000000000))
            (replicate 30 (CNum 3)))
   \<and> \<not> date_ascending
          (zip (Timestamp 1704153600000000000 # replicate 29 (Timestamp 1704067200000000000))
             (replicate 30 (CNum 3)))
   \<and> get_forecast to_datetime_iso naive_forecaster exact_ops fmt0_half_even
        [file_path 1 ''sales.csv'' \<mapsto> Csv frame_unsorted] 1 ''A'' ''sales.csv''
     = (case naive_forecaster True
               (zip (Timestamp 1704153600000000000 # replicate 29 (Timestamp 1704067200000000000))
                  (replicate 30 (CNum 3))) 30 of
          Inl e \<Rightarrow> Inl (Unhandled e)
        | Inr forecast \<Rightarrow>
            (case generate_insight exact_ops fmt0_half_even ''A'' (replicate 30 (CNum 3)) (map yhat forecast) of
               Inl e \<Rightarrow> Inl (Unhandled e)
             | Inr insight_text \<Rightarrow>
                 Inr \<lparr>product_id = ''A'', insight = insight_text,
                      historical_data =
                        map (\<lambda>(d, y). (DatetimeValue d, y))
                          (zip (Timestamp 1704153600000000000
                                  # replicate 29 (Timestamp 1704067200000000000))
                             (replicate 30 (CNum 3))),
                      forecast_data =
                        map (\<lambda>r. \<lparr>fp_ds = DatetimeValue (Timestamp (ds r)), fp_yhat = yhat r,
                                   fp_yhat_lower = yhat_lower r, fp_yhat_upper = yhat_upper r\<rparr>)
                          (tail 30 forecast)\<rparr>))"
proof -
  have a: "\<not> date_ascending
          (zip (Timestamp 1704153600000000000 # replicate 29 (Timestamp 1704067200000000000))
             (replicate 30 (CNum 3)))"
    by code_simp
  have ms: "map snd (zip (Timestamp 1704153600000000000
        # replicate 29 (Timestamp 1704067200000000000)) (replicate 30 (CNum 3)))
      = replicate 30 (CNum 3)"
    by code_simp
  note g = get_forecast_after [OF history_of_frame_unsorted, of naive_forecaster exact_ops fmt0_half_even,
      unfolded ms]
  show ?thesis
    by (intro conjI) (rule history_of_frame_unsorted, rule a, rule g)
qed

section \<open>The forecast response\<close>

lemma map_datetime_zip:
  "map (\<lambda>(d, y). (DatetimeValue d, y)) (zip dates ys) = zip (map DatetimeValue dates) ys"
  by (induction dates ys rule: list_induct2') simp_all

text \<open>
  What the forecast handler returns: the whole history of the product in stored order,
  each row as its parsed date and its units_sold, and the trailing 30 rows of the
  forecast output (all of them when the output has fewer), each with the datetime value
  of the forecast output and the three numbers.
\<close>

lemma forecast_response_rows:
  assumes "get_forecast td prophet ops fmt0 st uid pid fname = Inr resp"
  shows "\<exists>content df dates forecast.
      st (file_path uid fname) = Some content \<and> read_csv content = Inr df \<and>
      sequence (map (\<lambda>r. td (r ''date'')) (product_rows df pid)) = Inr dates \<and>
      prophet True (zip dates (map (\<lambda>r. r ''units_sold'') (product_rows df pid))) 30
        = Inr forecast \<and>
      historical_data resp
        = zip (map DatetimeValue dates) (map (\<lambda>r. r ''units_sold'') (product_rows df pid)) \<and>
      length (historical_data resp) = length (product_rows df pid) \<and>
      forecast_data resp = map forecast_point_of (drop (length forecast - 30) forecast) \<and>
      length (forecast_data resp) = min 30 (length forecast)"
proof -
  from get_forecast_Inr [OF assms] obtain hist forecast msg where h:
    "prophet_df_of td NotEnoughData st uid pid fname = Inr hist"
    "prophet True hist 30 = Inr forecast"
    "historical_data resp = map (\<lambda>(d, y). (DatetimeValue d, y)) hist"
    "forecast_data resp =
       map (\<lambda>r. \<lparr>fp_ds = DatetimeValue (Timestamp (ds r)), fp_yhat = yhat r,
                  fp_yhat_lower = yhat_lower r, fp_yhat_upper = yhat_upper r\<rparr>)
         (tail 30 forecast)"
    by auto
  from prophet_df_of_Inr [OF h(1)] obtain content df dates where c:
    "st (file_path uid fname) = Some content" "read_csv content = Inr df"
    "sequence (map (\<lambda>r. td (r ''date'')) (product_rows df pid)) = Inr dates"
    "hist = zip dates (map (\<lambda>r. r ''units_sold'') (product_rows df pid))"
    by blast
  from c(3) have len: "length dates = length (product_rows df pid)"
    using sequence_length [of "map (\<lambda>r. td (r ''date'')) (product_rows df pid)" dates] by simp
  have hd: "historical_data resp
        = zip (map DatetimeValue dates) (map (\<lambda>r. r ''units_sold'') (product_rows df pid))"
    unfolding h(3) c(4) by (rule map_datetime_zip)
  have hl: "length (historical_data resp) = length (product_rows df pid)"
    unfolding hd using len by simp
  have p: "(\<lambda>r. \<lparr>fp_ds = DatetimeValue (Timestamp (ds r)), fp_yhat = yhat r,
                  fp_yhat_lower = yhat_lower r, fp_yhat_upper = yhat_upper r\<rparr>) = forecast_point_of"
    by (simp add: fun_eq_iff forecast_point_of_def)
  have fd: "forecast_data resp = map forecast_point_of (drop (length forecast - 30) forecast)"
    unfolding h(4) p tail_def ..
  have fl: "length (forecast_data resp) = min 30 (length forecast)"
    unfolding fd by simp
  from c(1,2,3) h(2) [unfolded c(4)] hd hl fd fl show ?thesis
    by blast
qed

text \<open>
  Claim C7. For every successful forecast request the response's historical_data is the
  full filtered input sequence and its forecast_data the trailing 30 rows of the
  forecast output, each row carrying the date formatted as \<^verbatim>\<open>YYYY-MM-DD\<close> with yhat,
  yhat_lower and yhat_upper. The handler does not do the formatting: the export and the
  analysis handlers format their dates with \<^verbatim>\<open>strftime('%Y-%m-%d')\<close>, the forecast handler
  returns the datetime values as they are. For the stored file of 30 rows of product A
  (the first dated 2024-01-02, the others 2024-01-01) the request succeeds with 30
  forecast rows, the first of which carries the datetime 2024-01-03 00:00 and not the
  text \<^verbatim>\<open>2024-01-03\<close>; the first historical date is a datetime value as well.
\<close>

theorem forecast_dates_unformatted:
  "(case get_forecast to_datetime_iso naive_forecaster exact_ops fmt0_half_even
           [file_path 1 ''sales.csv'' \<mapsto> Csv frame_unsorted] 1 ''A'' ''sales.csv'' of
      Inl e \<Rightarrow> False
    | Inr r \<Rightarrow>
        length (forecast_data r) = 30 \<and>
        fp_ds (hd (forecast_data r)) = DatetimeValue (Timestamp 1704240000000000000) \<and>
        fp_ds (hd (forecast_data r)) \<noteq> Formatted (strftime_ymd 1704240000000000000) \<and>
        fst (hd (historical_data r)) = DatetimeValue (Timestamp 1704153600000000000))
   \<and> strftime_ymd 1704240000000000000 = ''2024-01-03''"
  by code_simp

section \<open>Analysis: revenue over time\<close>

lemma sequence_map_Inr:
  "list_all (\<lambda>x. f x = Inr (g x)) xs \<Longrightarrow> sequence (map f xs) = Inr (map g xs)"
  by (induction xs) simp_all

lemma cell_mul_numeric:
  "\<not> is_str a \<Longrightarrow> \<not> is_str b \<Longrightarrow>
   cell_mul ops a b = Inr (case (a, b) of (CNum u, CNum p) \<Rightarrow> Some (c_prod ops u p) | _ \<Rightarrow> None)"
  by (cases a; cases b) simp_all

lemma cell_value_numeric: "\<not> is_str a \<Longrightarrow> cell_value a = Inr (cell_num a)"
  by (cases a) simp_all

lemma revenue_column:
  assumes "numeric (column df ''units_sold'')" and "numeric (column df ''price'')"
  shows "sequence (map (\<lambda>r. cell_mul ops (r ''units_sold'') (r ''price'')) (rows df))
           = Inr (map (row_revenue ops) (rows df))"
proof (rule sequence_map_Inr)
  show "list_all (\<lambda>r. cell_mul ops (r ''units_sold'') (r ''price'') = Inr (row_revenue ops r)) (rows df)"
    using assms
    by (auto simp add: numeric_def column_def list_all_iff row_revenue_def cell_mul_numeric)
qed

lemma units_column:
  assumes "numeric (column df ''units_sold'')"
  shows "sequence (map cell_value (column df ''units_sold''))
           = Inr (map cell_num (column df ''units_sold''))"
proof (rule sequence_map_Inr)
  show "list_all (\<lambda>c. cell_value c = Inr (cell_num c)) (column df ''units_sold'')"
    using assms by (auto simp add: numeric_def list_all_iff cell_value_numeric)
qed

lemma analysis_of_valid:
  assumes "st (file_path uid fname) = Some content" and "validate content = Inr df"
    and "sequence (map td (column df ''date'')) = Inr dates"
  shows "get_historical_analysis td strftime ops st uid fname =
     Inr \<lparr>revenue_over_time =
            map (\<lambda>(d, v). (Formatted (strftime d), v))
              (groupby_sum ops (\<lambda>t. t) (zip (map datetime_key dates) (map (row_revenue ops) (rows df)))),
          top_products =
            nlargest 5
              (groupby_sum ops cell_order
                 (zip (map cell_key (column df ''product_id''))
                    (map cell_num (column df ''units_sold''))))\<rparr>"
proof -
  note n = validate_Inr_numeric [OF assms(2)]
  note c = has_required_columns [OF validate_Inr_required [OF assms(2)]]
  from n have r: "sequence (map (\<lambda>r. cell_mul ops (r ''units_sold'') (r ''price'')) (rows df))
           = Inr (map (row_revenue ops) (rows df))"
    by (simp add: revenue_column)
  from n have u: "sequence (map cell_value (column df ''units_sold''))
           = Inr (map cell_num (column df ''units_sold''))"
    by (simp add: units_column)
  show ?thesis
    using assms(1) validate_Inr_same [OF assms(2)] assms(3) c r u
    by (simp add: get_historical_analysis_def)
qed

lemma group_sum_zip:
  "length dates = length rs \<Longrightarrow>
   List.map_filter snd
      (filter (\<lambda>kv. fst kv = Some t) (zip (map datetime_key dates) (map (row_revenue ops) rs)))
   = List.map_filter (\<lambda>p. row_revenue ops (snd p))
       (filter (\<lambda>p. fst p = Timestamp t) (zip dates rs))"
proof (induction dates rs rule: list_induct2)
  case Nil
  show ?case by (simp add: List.map_filter_simps)
next
  case (Cons d ds r rs)
  have k: "(datetime_key d = Some t) = (d = Timestamp t)"
    by (cases d) auto
  from Cons.IH show ?case
    by (cases "row_revenue ops r") (simp_all add: List.map_filter_simps k)
qed

lemma groupby_sum_dates:
  assumes "length dates = length rs"
  shows "groupby_sum ops (\<lambda>t. t) (zip (map datetime_key dates) (map (row_revenue ops) rs))
           = map (\<lambda>t. (t, revenue_on ops dates rs t)) (analysis_days dates)"
proof -
  have f: "List.map_filter fst (zip (map datetime_key dates) (map (row_revenue ops) rs))
             = List.map_filter datetime_key dates"
    using assms by (induction dates rs rule: list_induct2) (simp_all add: List.map_filter_simps split: option.splits)
  show ?thesis
    unfolding groupby_sum_def f analysis_days_def
    by (simp add: group_sum_zip [OF assms] revenue_on_def)
qed

lemma analysis_days_sorted: "sorted (analysis_days dates) \<and> distinct (analysis_days dates)"
  by (simp add: analysis_days_def)

lemma datetime_key_Some: "(datetime_key d = Some t) = (d = Timestamp t)"
  by (cases d) auto

lemma set_map_filter_datetime_key:
  "set (List.map_filter datetime_key dates) = {t. Timestamp t \<in> set dates}"
proof (induction dates)
  case Nil
  show ?case by (simp add: List.map_filter_simps)
next
  case (Cons d ds)
  then show ?case
    by (cases d) (auto simp add: List.map_filter_simps)
qed

lemma set_analysis_days: "set (analysis_days dates) = {t. Timestamp t \<in> set dates}"
  by (simp add: analysis_days_def set_map_filter_datetime_key)

lemma revenue_of_valid:
  assumes "st (file_path uid fname) = Some content" and "validate content = Inr df"
    and "sequence (map td (column df ''date'')) = Inr dates"
  shows "\<exists>resp. get_historical_analysis td strftime ops st uid fname = Inr resp \<and>
            revenue_over_time resp =
              map (\<lambda>t. (Formatted (strftime t), revenue_on ops dates (rows df) t)) (analysis_days dates)"
proof -
  from assms(3) have len: "length dates = length (rows df)"
    using sequence_length [of "map td (column df ''date'')" dates] by (simp add: column_def)
  have "revenue_over_time
          \<lparr>revenue_over_time =
             map (\<lambda>(d, v). (Formatted (strftime d), v))
               (groupby_sum ops (\<lambda>t. t) (zip (map datetime_key dates) (map (row_revenue ops) (rows df)))),
           top_products =
             nlargest 5
               (groupby_sum ops cell_order
                  (zip (map cell_key (column df ''product_id''))
                     (map cell_num (column df ''units_sold''))))\<rparr>
        = map (\<lambda>t. (Formatted (strftime t), revenue_on ops dates (rows df) t)) (analysis_days dates)"
    by (simp add: groupby_sum_dates [OF len] comp_def)
  moreover have "get_historical_analysis td strftime ops st uid fname =
     Inr \<lparr>revenue_over_time =
            map (\<lambda>(d, v). (Formatted (strftime d), v))
              (groupby_sum ops (\<lambda>t. t) (zip (map datetime_key dates) (map (row_revenue ops) (rows df)))),
          top_products =
            nlargest 5
              (groupby_sum ops cell_order
                 (zip (map cell_key (column df ''product_id''))
                    (map cell_num (column df ''units_sold''))))\<rparr>"
    using assms by (rule analysis_of_valid)
  ultimately show ?thesis
    by blast
qed

text \<open>The example data set of the specification: its file, its dates and its sums.\<close>

lemma spec_sales_stored:
  "[file_path 1 ''sales.csv'' \<mapsto> Csv spec_sales] (file_path 1 ''sales.csv'') = Some (Csv spec_sales)"
  by simp

lemma spec_sales_valid: "validate (Csv spec_sales) = Inr spec_sales"
  by (simp add: eval_validate example_frames)

lemma spec_sales_dates:
  "sequence (map to_datetime_iso (column spec_sales ''date''))
     = Inr [Timestamp 1704067200000000000, Timestamp 1704067200000000000,
            Timestamp 1704153600000000000]"
  by code_simp

lemma spec_sales_days:
  "analysis_days [Timestamp 1704067200000000000, Timestamp 1704067200000000000,
                  Timestamp 1704153600000000000]
     = [1704067200000000000, 1704153600000000000]"
  by code_simp

lemma spec_sales_day_names:
  "strftime_ymd 1704067200000000000 = ''2024-01-01''"
  "strftime_ymd 1704153600000000000 = ''2024-01-02''"
  by code_simp+

lemma spec_sales_sums:
  "map (\<lambda>t. (Formatted (strftime_ymd t),
              revenue_on exact_column_ops [Timestamp 1704067200000000000, Timestamp 1704067200000000000,
                          Timestamp 1704153600000000000] (rows spec_sales) t))
     (analysis_days [Timestamp 1704067200000000000, Timestamp 1704067200000000000,
                     Timestamp 1704153600000000000])
   = [(Formatted ''2024-01-01'', 35), (Formatted ''2024-01-02'', 14)]"
  unfolding spec_sales_days
  by (simp add: spec_sales_day_names revenue_on_def row_revenue_def example_frames
      exact_column_ops_def List.map_filter_simps)

lemma spec_sales_revenue:
  "case get_historical_analysis to_datetime_iso strftime_ymd exact_column_ops
          [file_path 1 ''sales.csv'' \<mapsto> Csv spec_sales] 1 ''sales.csv'' of
     Inl e \<Rightarrow> False
   | Inr r \<Rightarrow> revenue_over_time r =
       [(Formatted ''2024-01-01'', 35), (Formatted ''2024-01-02'', 14)]"
proof -
  note r = revenue_of_valid [where st = "[file_path 1 ''sales.csv'' \<mapsto> Csv spec_sales]"
      and uid = 1 and fname = "''sales.csv''" and content = "Csv spec_sales" and df = spec_sales
      and td = to_datetime_iso and strftime = strftime_ymd and ops = exact_column_ops,
      OF spec_sales_stored spec_sales_valid spec_sales_dates]
  then obtain resp where
    "get_historical_analysis to_datetime_iso strftime_ymd exact_column_ops
          [file_path 1 ''sales.csv'' \<mapsto> Csv spec_sales] 1 ''sales.csv'' = Inr resp"
    "revenue_over_time resp = [(Formatted ''2024-01-01'', 35), (Formatted ''2024-01-02'', 14)]"
    unfolding spec_sales_sums by blast
  then show ?thesis
    by simp
qed

lemma analysis_dates_fail:
  assumes "st (file_path uid fname) = Some content" and "validate content = Inr df"
    and "sequence (map td (column df ''date'')) = Inl e"
  shows "get_historical_analysis td strftime ops st uid fname = Inl (Unhandled e)"
  using assms(1) validate_Inr_same [OF assms(2)] assms(3)
    has_required_columns [OF validate_Inr_required [OF assms(2)]]
  by (simp add: get_historical_analysis_def)

text \<open>A valid file with two records of one calendar day, twelve hours apart, the
  dates given as timestamps.\<close>

lemma two_times_stored:
  "[file_path 1 ''sales.csv'' \<mapsto> Csv frame_two_times] (file_path 1 ''sales.csv'')
     = Some (Csv frame_two_times)"
  by simp

lemma two_times_valid: "validate (Csv frame_two_times) = Inr frame_two_times"
  by (simp add: eval_validate frame_two_times_def example_frames)

lemma two_times_dates:
  "sequence (map to_datetime_iso (column frame_two_times ''date''))
     = Inr [Timestamp 1704067200000000000, Timestamp 1704110400000000000]"
  by (simp add: column_def frame_two_times_def example_frames)

lemma two_times_days:
  "analysis_days [Timestamp 1704067200000000000, Timestamp 1704110400000000000]
     = [1704067200000000000, 1704110400000000000]"
  by code_simp

lemma two_times_day_names:
  "strftime_ymd 1704067200000000000 = ''2024-01-01''"
  "strftime_ymd 1704110400000000000 = ''2024-01-01''"
  by code_simp+

lemma two_times_sums:
  "map (\<lambda>t. (Formatted (strftime_ymd t),
              revenue_on exact_column_ops [Timestamp 1704067200000000000, Timestamp 1704110400000000000]
                (rows frame_two_times) t))
     (analysis_days [Timestamp 1704067200000000000, Timestamp 1704110400000000000])
   = [(Formatted ''2024-01-01'', 20), (Formatted ''2024-01-01'', 15)]"
  unfolding two_times_days
  by (simp add: two_times_day_names revenue_on_def row_revenue_def frame_two_times_def
      example_frames exact_column_ops_def List.map_filter_simps)

lemma two_times_revenue:
  "case get_historical_analysis to_datetime_iso strftime_ymd exact_column_ops
          [file_path 1 ''sales.csv'' \<mapsto> Csv frame_two_times] 1 ''sales.csv'' of
     Inl e \<Rightarrow> False
   | Inr r \<Rightarrow> revenue_over_time r =
       [(Formatted ''2024-01-01'', 20), (Formatted ''2024-01-01'', 15)]"
proof -
  note r = revenue_of_valid [where st = "[file_path 1 ''sales.csv'' \<mapsto> Csv frame_two_times]"
      and uid = 1 and fname = "''sales.csv''" and content = "Csv frame_two_times"
      and df = frame_two_times and td = to_datetime_iso and strftime = strftime_ymd and ops = exact_column_ops,
      OF two_times_stored two_times_valid two_times_dates]
  then obtain resp where
    "get_historical_analysis to_datetime_iso strftime_ymd exact_column_ops
          [file_path 1 ''sales.csv'' \<mapsto> Csv frame_two_times] 1 ''sales.csv'' = Inr resp"
    "revenue_over_time resp = [(Formatted ''2024-01-01'', 20), (Formatted ''2024-01-01'', 15)]"
    unfolding two_times_sums by blast
  then show ?thesis
    by simp
qed

text \<open>
  Claim C5, as amended. For every stored data set (one that passed the validation of
  the upload) whose dates parse, the analysis succeeds and its revenue_over_time has
  one entry for each distinct parsed timestamp of the data set (date and time of day
  together, so two records of one calendar day at different times give two entries
  with the same formatted date), the timestamps listed in ascending order; the entry
  of a timestamp carries it formatted as \<^verbatim>\<open>%Y-%m-%d\<close> and the sum of units_sold * price
  over all the records with that timestamp (product and sum as the library computes
  them, over the records in row order, a record with a missing value left out). When a date of the data set does not parse,
  the analysis fails with the unhandled exception of the parsing. The result is a
  function of the stored data set. For the data set (2024-01-01, A, 10, 2.0),
  (2024-01-01, B, 5, 3.0), (2024-01-02, A, 7, 2.0) it is 35.0 for 2024-01-01 followed
  by 14.0 for 2024-01-02.
\<close>

theorem revenue_over_time_by_date:
  assumes "st (file_path uid fname) = Some content" and "validate content = Inr df"
  shows "(sequence (map td (column df ''date'')) = Inr dates \<longrightarrow>
           (\<exists>resp. get_historical_analysis td strftime ops st uid fname = Inr resp \<and>
              revenue_over_time resp =
                map (\<lambda>t. (Formatted (strftime t), revenue_on ops dates (rows df) t))
                  (analysis_days dates))
           \<and> sorted (analysis_days dates) \<and> distinct (analysis_days dates)
           \<and> set (analysis_days dates) = {t. Timestamp t \<in> set dates})
         \<and> (sequence (map td (column df ''date'')) = Inl e \<longrightarrow>
           get_historical_analysis td strftime ops st uid fname = Inl (Unhandled e))
         \<and> (case get_historical_analysis to_datetime_iso strftime_ymd exact_column_ops
                    [file_path 1 ''sales.csv'' \<mapsto> Csv spec_sales] 1 ''sales.csv'' of
               Inl e \<Rightarrow> False
             | Inr r \<Rightarrow> revenue_over_time r =
                 [(Formatted ''2024-01-01'', 35), (Formatted ''2024-01-02'', 14)])
         \<and> (case get_historical_analysis to_datetime_iso strftime_ymd exact_column_ops
                    [file_path 1 ''sales.csv'' \<mapsto> Csv frame_two_times] 1 ''sales.csv'' of
               Inl e \<Rightarrow> False
             | Inr r \<Rightarrow> revenue_over_time r =
                 [(Formatted ''2024-01-01'', 20), (Formatted ''2024-01-01'', 15)])"
proof (intro conjI impI)
  assume d: "sequence (map td (column df ''date'')) = Inr dates"
  show "\<exists>resp. get_historical_analysis td strftime ops st uid fname = Inr resp \<and>
            revenue_over_time resp =
              map (\<lambda>t. (Formatted (strftime t), revenue_on ops dates (rows df) t)) (analysis_days dates)"
    using assms d by (rule revenue_of_valid)
  show "sorted (analysis_days dates)" and "distinct (analysis_days dates)"
    using analysis_days_sorted [of dates] by simp_all
  show "set (analysis_days dates) = {t. Timestamp t \<in> set dates}"
    by (rule set_analysis_days)
next
  assume "sequence (map td (column df ''date'')) = Inl e"
  with assms show "get_historical_analysis td strftime ops st uid fname = Inl (Unhandled e)"
    by (rule analysis_dates_fail)
next
  show "case get_historical_analysis to_datetime_iso strftime_ymd exact_column_ops
                    [file_path 1 ''sales.csv'' \<mapsto> Csv spec_sales] 1 ''sales.csv'' of
               Inl e \<Rightarrow> False
             | Inr r \<Rightarrow> revenue_over_time r =
                 [(Formatted ''2024-01-01'', 35), (Formatted ''2024-01-02'', 14)]"
    by (rule spec_sales_revenue)
next
  show "case get_historical_analysis to_datetime_iso strftime_ymd exact_column_ops
                    [file_path 1 ''sales.csv'' \<mapsto> Csv frame_two_times] 1 ''sales.csv'' of
               Inl e \<Rightarrow> False
             | Inr r \<Rightarrow> revenue_over_time r =
                 [(Formatted ''2024-01-01'', 20), (Formatted ''2024-01-01'', 15)]"
    by (rule two_times_revenue)
qed

lemma bad_dates_stored:
  "[file_path 1 ''sales.csv'' \<mapsto> Csv frame_bad_dates] (file_path 1 ''sales.csv'')
     = Some (Csv frame_bad_dates)"
  by simp

lemma bad_dates_valid: "validate (Csv frame_bad_dates) = Inr frame_bad_dates"
  by (rule validate_ok)
    (simp_all add: has_required_def numeric_def no_negative_def column_def list_all_iff
      frame_bad_dates_def example_frames)

lemma bad_dates_fail:
  "sequence (map to_datetime_iso (column frame_bad_dates ''date'')) = Inl DateParseError"
  by code_simp

theorem revenue_over_time_by_date_witness:
  "[file_path 1 ''sales.csv'' \<mapsto> Csv spec_sales] (file_path 1 ''sales.csv'') = Some (Csv spec_sales)
   \<and> validate (Csv spec_sales) = Inr spec_sales
   \<and> sequence (map to_datetime_iso (column spec_sales ''date''))
       = Inr [Timestamp 1704067200000000000, Timestamp 1704067200000000000,
              Timestamp 1704153600000000000]
   \<and> (\<exists>resp. get_historical_analysis to_datetime_iso strftime_ymd exact_column_ops
                 [file_path 1 ''sales.csv'' \<mapsto> Csv spec_sales] 1 ''sales.csv'' = Inr resp \<and>
              revenue_over_time resp =
                [(Formatted ''2024-01-01'', 35), (Formatted ''2024-01-02'', 14)])
   \<and> analysis_days [Timestamp 1704067200000000000, Timestamp 1704067200000000000,
                     Timestamp 1704153600000000000]
       = [1704067200000000000, 1704153600000000000]
   \<and> [file_path 1 ''sales.csv'' \<mapsto> Csv frame_bad_dates] (file_path 1 ''sales.csv'')
       = Some (Csv frame_bad_dates)
   \<and> validate (Csv frame_bad_dates) = Inr frame_bad_dates
   \<and> sequence (map to_datetime_iso (column frame_bad_dates ''date'')) = Inl DateParseError
   \<and> get_historical_analysis to_datetime_iso strftime_ymd exact_column_ops
        [file_path 1 ''sales.csv'' \<mapsto> Csv frame_bad_dates] 1 ''sales.csv''
       = Inl (Unhandled DateParseError)"
proof -
  note t = revenue_over_time_by_date [where st = "[file_path 1 ''sales.csv'' \<mapsto> Csv spec_sales]"
      and uid = 1 and fname = "''sales.csv''" and content = "Csv spec_sales" and df = spec_sales
      and td = to_datetime_iso and strftime = strftime_ymd and ops = exact_column_ops
      and dates = "[Timestamp 1704067200000000000, Timestamp 1704067200000000000,
                    Timestamp 1704153600000000000]",
      OF spec_sales_stored spec_sales_valid, unfolded spec_sales_sums]
  from t spec_sales_dates have
    "\<exists>resp. get_historical_analysis to_datetime_iso strftime_ymd exact_column_ops
                 [file_path 1 ''sales.csv'' \<mapsto> Csv spec_sales] 1 ''sales.csv'' = Inr resp \<and>
              revenue_over_time resp =
                [(Formatted ''2024-01-01'', 35), (Formatted ''2024-01-02'', 14)]"
    by blast
  moreover
  note u = revenue_over_time_by_date [where st = "[file_path 1 ''sales.csv'' \<mapsto> Csv frame_bad_dates]"
      and uid = 1 and fname = "''sales.csv''" and content = "Csv frame_bad_dates"
      and df = frame_bad_dates and td = to_datetime_iso and strftime = strftime_ymd and ops = exact_column_ops
      and e = DateParseError, OF bad_dates_stored bad_dates_valid]
  from u bad_dates_fail have
    "get_historical_analysis to_datetime_iso strftime_ymd exact_column_ops
        [file_path 1 ''sales.csv'' \<mapsto> Csv frame_bad_dates] 1 ''sales.csv''
       = Inl (Unhandled DateParseError)"
    by blast
  ultimately show ?thesis
    using spec_sales_stored spec_sales_valid spec_sales_dates spec_sales_days
      bad_dates_stored bad_dates_valid bad_dates_fail
    by blast
qed

text \<open>
  The claim as it is written holds for every stored data set. The upload does not look
  at the dates: the file of 30 rows dated \<^verbatim>\<open>notadate\<close> passes its validation and is
  stored, and the analysis of it ends in the unhandled exception of the date parsing.
\<close>

theorem analysis_unparsable_dates_counterexample:
  "upload_csv flat_directory Map.empty 1 ''sales.csv'' (Csv frame_bad_dates)
     = (Inr \<lparr>message = ''CSV validated and saved successfully!'', filename = ''sales.csv'',
             products = [CStr ''A'']\<rparr>,
        [file_path 1 ''sales.csv'' \<mapsto> Csv frame_bad_dates])
   \<and> get_historical_analysis to_datetime_iso strftime_ymd exact_column_ops
        [file_path 1 ''sales.csv'' \<mapsto> Csv frame_bad_dates] 1 ''sales.csv''
       = Inl (Unhandled DateParseError)"
proof -
  have c: "endswith ''sales.csv'' ''.csv''"
    by (simp add: endswith_def)
  have w: "Map.empty (file_path 1 ''sales.csv'') \<noteq> None
             \<or> flat_directory (file_path 1 ''sales.csv'')"
    using flat_sales by simp
  have p: "column frame_bad_dates ''product_id'' = replicate 30 (CStr ''A'')"
    by (simp add: column_def frame_bad_dates_def example_frames)
  have n: "\<not> list_ex is_nan (column frame_bad_dates ''product_id'')"
    unfolding p by (simp add: list_ex_iff)
  have q: "unique (column frame_bad_dates ''product_id'') = [CStr ''A'']"
    unfolding p by code_simp
  have "upload_csv flat_directory Map.empty 1 ''sales.csv'' (Csv frame_bad_dates)
     = (Inr \<lparr>message = ''CSV validated and saved successfully!'', filename = ''sales.csv'',
             products = unique (column frame_bad_dates ''product_id'')\<rparr>,
        [file_path 1 ''sales.csv'' \<mapsto> Csv frame_bad_dates])"
    using c w bad_dates_valid n by (rule upload_valid)
  moreover have "get_historical_analysis to_datetime_iso strftime_ymd exact_column_ops
        [file_path 1 ''sales.csv'' \<mapsto> Csv frame_bad_dates] 1 ''sales.csv''
       = Inl (Unhandled DateParseError)"
    using bad_dates_stored bad_dates_valid bad_dates_fail by (rule analysis_dates_fail)
  ultimately show ?thesis
    unfolding q by blast
qed

section \<open>Analysis: top products\<close>

lemma cell_order_inj: "cell_order a = cell_order b \<Longrightarrow> a = b"
  by (cases a; cases b) simp_all

lemma ranks_before_insort:
  assumes "sorted_wrt ranks_before ys"
    and "list_all (\<lambda>y. cell_order (fst x) < cell_order (fst y)) ys"
  shows "sorted_wrt ranks_before (insort_key (\<lambda>kv. - snd kv) x ys)"
  using assms
proof (induction ys)
  case Nil
  show ?case by simp
next
  case (Cons y ys)
  show ?case
  proof (cases "snd y \<le> snd x")
    case True
    have "ranks_before x z" if "z \<in> set (y # ys)" for z
    proof -
      have "snd z \<le> snd y"
        using that Cons.prems(1) by (auto simp add: ranks_before_def)
      moreover have "cell_order (fst x) < cell_order (fst z)"
        using that Cons.prems(2) by (auto simp add: list_all_iff)
      ultimately show ?thesis
        using True by (auto simp add: ranks_before_def)
    qed
    with True Cons.prems(1) show ?thesis
      by simp
  next
    case False
    then have "ranks_before y x"
      by (simp add: ranks_before_def)
    moreover have "sorted_wrt ranks_before (insort_key (\<lambda>kv. - snd kv) x ys)"
      using Cons by simp
    ultimately show ?thesis
      using False Cons.prems(1) by (auto simp add: set_insort_key)
  qed
qed

lemma ranks_before_sort:
  "sorted_wrt (\<lambda>a b. cell_order (fst a) < cell_order (fst b)) xs \<Longrightarrow>
   sorted_wrt ranks_before (sort_key (\<lambda>kv. - snd kv) xs)"
proof (induction xs)
  case Nil
  show ?case by simp
next
  case (Cons x xs)
  then have "list_all (\<lambda>y. cell_order (fst x) < cell_order (fst y))
               (sort_key (\<lambda>kv. - snd kv) xs)"
    by (simp add: list_all_iff)
  with Cons show ?case
    by (simp add: ranks_before_insort)
qed

lemma strictly_sorted_keys:
  "sorted_wrt (\<lambda>a b. cell_order a < cell_order b) (sort_key cell_order (remdups ks))"
proof -
  have "distinct (map cell_order (sort_key cell_order (remdups ks)))"
    by (simp add: distinct_map inj_on_def cell_order_inj)
  then have "sorted_wrt (<) (map cell_order (sort_key cell_order (remdups ks)))"
    by (simp add: strict_sorted_iff)
  then show ?thesis
    by (simp add: sorted_wrt_map)
qed

lemma map_filter_cell_key: "List.map_filter cell_key cs = filter (\<lambda>c. c \<noteq> CNaN) cs"
proof (induction cs)
  case Nil
  show ?case by (simp add: List.map_filter_simps)
next
  case (Cons c cs)
  then show ?case by (cases c) (simp_all add: List.map_filter_simps)
qed

lemma cell_key_Some: "k \<noteq> CNaN \<Longrightarrow> (cell_key c = Some k) = (c = k)"
  by (cases c) auto

lemma product_group_sum:
  assumes "k \<noteq> CNaN"
  shows "List.map_filter snd (filter (\<lambda>kv. fst kv = Some k)
            (zip (map (\<lambda>r. cell_key (r ''product_id'')) rs)
                 (map (\<lambda>r. cell_num (r ''units_sold'')) rs)))
         = List.map_filter (\<lambda>r. cell_num (r ''units_sold''))
             (filter (\<lambda>r. r ''product_id'' = k) rs)"
proof (induction rs)
  case Nil
  show ?case by (simp add: List.map_filter_simps)
next
  case (Cons r rs)
  then show ?case
    by (cases "cell_num (r ''units_sold'')")
      (simp_all add: List.map_filter_simps cell_key_Some [OF assms])
qed

lemma map_filter_fst_zip:
  "List.map_filter fst (zip (map f rs) (map g rs)) = List.map_filter f rs"
  by (induction rs) (simp_all add: List.map_filter_simps split: option.splits)

lemma map_filter_cell_key_column:
  "List.map_filter (\<lambda>r. cell_key (r c)) rs = filter (\<lambda>x. x \<noteq> CNaN) (map (\<lambda>r. r c) rs)"
proof (induction rs)
  case Nil
  show ?case by (simp add: List.map_filter_simps)
next
  case (Cons r rs)
  then show ?case by (cases "r c") (simp_all add: List.map_filter_simps)
qed

lemma groupby_sum_products:
  "groupby_sum ops cell_order
     (zip (map cell_key (column df ''product_id'')) (map cell_num (column df ''units_sold'')))
   = map (\<lambda>k. (k, units_total ops df k)) (product_ids df)"
proof -
  have z: "zip (map cell_key (column df ''product_id'')) (map cell_num (column df ''units_sold''))
         = zip (map (\<lambda>r. cell_key (r ''product_id'')) (rows df))
               (map (\<lambda>r. cell_num (r ''units_sold'')) (rows df))"
    by (simp add: column_def comp_def)
  have f: "List.map_filter fst
             (zip (map (\<lambda>r. cell_key (r ''product_id'')) (rows df))
                  (map (\<lambda>r. cell_num (r ''units_sold'')) (rows df)))
           = filter (\<lambda>c. c \<noteq> CNaN) (column df ''product_id'')"
    unfolding map_filter_fst_zip map_filter_cell_key_column column_def ..
  have k: "k \<noteq> CNaN" if "k \<in> set (product_ids df)" for k
    using that by (simp add: product_ids_def)
  show ?thesis
    unfolding groupby_sum_def z f product_ids_def [symmetric]
  proof (rule map_cong [OF refl])
    fix x
    assume "x \<in> set (product_ids df)"
    then have "x \<noteq> CNaN"
      by (rule k)
    then show "(x, c_sum ops (List.map_filter snd (filter (\<lambda>kv. fst kv = Some x)
                   (zip (map (\<lambda>r. cell_key (r ''product_id'')) (rows df))
                        (map (\<lambda>r. cell_num (r ''units_sold'')) (rows df))))))
               = (x, units_total ops df x)"
      by (simp add: product_group_sum units_total_def)
  qed
qed

lemma product_ids_set:
  "set (product_ids df) = set (column df ''product_id'') - {CNaN} \<and> distinct (product_ids df)"
  by (auto simp add: product_ids_def)

lemma ranked_totals:
  fixes df :: dataframe and ops :: column_ops
  defines "ranked \<equiv> sort_key (\<lambda>kv. - snd kv) (map (\<lambda>k. (k, units_total ops df k)) (product_ids df))"
  shows "sorted_wrt ranks_before ranked"
    and "set ranked = (\<lambda>k. (k, units_total ops df k)) ` set (product_ids df)"
    and "length ranked = length (product_ids df)"
proof -
  have "sorted_wrt (\<lambda>a b. cell_order a < cell_order b) (product_ids df)"
    unfolding product_ids_def by (rule strictly_sorted_keys)
  then have "sorted_wrt (\<lambda>a b. cell_order (fst a) < cell_order (fst b))
               (map (\<lambda>k. (k, units_total ops df k)) (product_ids df))"
    by (simp add: sorted_wrt_map)
  then show "sorted_wrt ranks_before ranked"
    unfolding ranked_def by (rule ranks_before_sort)
  show "set ranked = (\<lambda>k. (k, units_total ops df k)) ` set (product_ids df)"
    unfolding ranked_def by simp
  show "length ranked = length (product_ids df)"
    unfolding ranked_def by simp
qed

lemma top_of_ranked:
  assumes "sorted_wrt ranks_before ranked"
    and "set ranked = (\<lambda>k. (k, units_total ops df k)) ` set ks"
  shows "sorted_wrt ranks_before (take n ranked)"
    and "list_all (\<lambda>e. fst e \<in> set ks \<and> snd e = units_total ops df (fst e)) (take n ranked)"
    and "list_all (\<lambda>k. k \<in> fst ` set (take n ranked) \<or>
            list_all (\<lambda>e. ranks_before e (k, units_total ops df k)) (take n ranked)) ks"
proof -
  have split: "ranked = take n ranked @ drop n ranked"
    by simp
  from assms(1) have s: "sorted_wrt ranks_before (take n ranked @ drop n ranked)"
    by simp
  then show "sorted_wrt ranks_before (take n ranked)"
    unfolding sorted_wrt_append by blast
  have "set (take n ranked) \<subseteq> set ranked"
    by (rule set_take_subset)
  with assms(2) show "list_all (\<lambda>e. fst e \<in> set ks \<and> snd e = units_total ops df (fst e)) (take n ranked)"
    by (auto simp add: list_all_iff)
  show "list_all (\<lambda>k. k \<in> fst ` set (take n ranked) \<or>
            list_all (\<lambda>e. ranks_before e (k, units_total ops df k)) (take n ranked)) ks"
    unfolding list_all_iff
  proof
    fix k
    assume "k \<in> set ks"
    with assms(2) have "(k, units_total ops df k) \<in> set ranked"
      by blast
    then have "(k, units_total ops df k) \<in> set (take n ranked) \<or> (k, units_total ops df k) \<in> set (drop n ranked)"
      using split by (metis Un_iff set_append)
    then show "k \<in> fst ` set (take n ranked) \<or>
            (\<forall>e\<in>set (take n ranked). ranks_before e (k, units_total ops df k))"
    proof
      assume "(k, units_total ops df k) \<in> set (take n ranked)"
      then show ?thesis by force
    next
      assume "(k, units_total ops df k) \<in> set (drop n ranked)"
      with s show ?thesis
        unfolding sorted_wrt_append by blast
    qed
  qed
qed

text \<open>
  Claim C6, as amended. For every stored data set whose dates parse, the analysis
  succeeds and its top_products is made of the per-product_id sums of units_sold (as
  the library computes them over the rows of the product; a missing product_id forms
  no group), ordered descending by total, with ties between
  equal totals broken by ascending product_id (the order of the grouped totals, not the
  order in which the data set first mentions the products), and truncated to the 5
  that rank first: every product left out ranks after all that are listed. For a
  stored data set with a date that does not parse, the analysis fails with the
  unhandled exception of the parsing before any total is computed.
\<close>

theorem top_products_ranking:
  assumes "st (file_path uid fname) = Some content" and "validate content = Inr df"
  shows "(sequence (map td (column df ''date'')) = Inr dates \<longrightarrow>
      (\<exists>resp. get_historical_analysis td strftime ops st uid fname = Inr resp \<and>
        top_products resp =
          take 5 (sort_key (\<lambda>kv. - snd kv) (map (\<lambda>k. (k, units_total ops df k)) (product_ids df))) \<and>
        sorted_wrt ranks_before (top_products resp) \<and>
        length (top_products resp) = min 5 (length (product_ids df)) \<and>
        list_all (\<lambda>e. fst e \<in> set (product_ids df) \<and> snd e = units_total ops df (fst e))
          (top_products resp) \<and>
        list_all (\<lambda>k. k \<in> fst ` set (top_products resp) \<or>
                    list_all (\<lambda>e. ranks_before e (k, units_total ops df k)) (top_products resp))
          (product_ids df)))
    \<and> (sequence (map td (column df ''date'')) = Inl e \<longrightarrow>
      get_historical_analysis td strftime ops st uid fname = Inl (Unhandled e))
    \<and> set (product_ids df) = set (column df ''product_id'') - {CNaN}
    \<and> distinct (product_ids df)"
proof (intro conjI impI)
  assume d: "sequence (map td (column df ''date'')) = Inr dates"
  let ?ranked = "sort_key (\<lambda>kv. - snd kv) (map (\<lambda>k. (k, units_total ops df k)) (product_ids df))"
  have "get_historical_analysis td strftime ops st uid fname =
     Inr \<lparr>revenue_over_time =
            map (\<lambda>(d, v). (Formatted (strftime d), v))
              (groupby_sum ops (\<lambda>t. t) (zip (map datetime_key dates) (map (row_revenue ops) (rows df)))),
          top_products =
            nlargest 5
              (groupby_sum ops cell_order
                 (zip (map cell_key (column df ''product_id''))
                    (map cell_num (column df ''units_sold''))))\<rparr>"
    using assms d by (rule analysis_of_valid)
  then have a: "get_historical_analysis td strftime ops st uid fname =
     Inr \<lparr>revenue_over_time =
            map (\<lambda>(d, v). (Formatted (strftime d), v))
              (groupby_sum ops (\<lambda>t. t) (zip (map datetime_key dates) (map (row_revenue ops) (rows df)))),
          top_products = take 5 ?ranked\<rparr>"
    unfolding groupby_sum_products nlargest_def .
  note r = ranked_totals [of ops df]
  note t = top_of_ranked [OF r(1) r(2), of 5]
  have l: "length (take 5 ?ranked) = min 5 (length (product_ids df))"
    using r(3) by simp
  from a t l show "\<exists>resp. get_historical_analysis td strftime ops st uid fname = Inr resp \<and>
        top_products resp = take 5 ?ranked \<and>
        sorted_wrt ranks_before (top_products resp) \<and>
        length (top_products resp) = min 5 (length (product_ids df)) \<and>
        list_all (\<lambda>e. fst e \<in> set (product_ids df) \<and> snd e = units_total ops df (fst e))
          (top_products resp) \<and>
        list_all (\<lambda>k. k \<in> fst ` set (top_products resp) \<or>
                    list_all (\<lambda>e. ranks_before e (k, units_total ops df k)) (top_products resp))
          (product_ids df)"
    by simp
next
  assume "sequence (map td (column df ''date'')) = Inl e"
  with assms show "get_historical_analysis td strftime ops st uid fname = Inl (Unhandled e)"
    by (rule analysis_dates_fail)
next
  show "set (product_ids df) = set (column df ''product_id'') - {CNaN}"
    and "distinct (product_ids df)"
    using product_ids_set [of df] by simp_all
qed

text \<open>The example file with a tie: its dates, its product ids and its ranking.\<close>

lemma frame_tie_stored:
  "[file_path 1 ''sales.csv'' \<mapsto> Csv frame_tie] (file_path 1 ''sales.csv'') = Some (Csv frame_tie)"
  by simp

lemma frame_tie_valid: "validate (Csv frame_tie) = Inr frame_tie"
  by (simp add: eval_validate frame_tie_def example_frames)

lemma frame_tie_dates:
  "sequence (map to_datetime_iso (column frame_tie ''date''))
     = Inr [Timestamp 1704067200000000000, Timestamp 1704067200000000000]"
  by code_simp

lemma frame_tie_encounter:
  "unique (column frame_tie ''product_id'') = [CStr ''B'', CStr ''A'']"
  by (simp add: unique_def column_def frame_tie_def example_frames)

lemma frame_tie_product_ids: "product_ids frame_tie = [CStr ''A'', CStr ''B'']"
  by (simp add: product_ids_def column_def frame_tie_def example_frames)

lemma frame_tie_totals:
  "units_total exact_column_ops frame_tie (CStr ''A'') = 5" "units_total exact_column_ops frame_tie (CStr ''B'') = 5"
  by (simp_all add: units_total_def frame_tie_def example_frames exact_column_ops_def
      List.map_filter_simps)

lemma frame_tie_ranked:
  "take 5 (sort_key (\<lambda>kv. - snd kv)
       (map (\<lambda>k. (k, units_total exact_column_ops frame_tie k)) (product_ids frame_tie)))
   = [(CStr ''A'', 5), (CStr ''B'', 5)]"
  by (simp add: frame_tie_product_ids frame_tie_totals)

theorem top_products_ranking_witness:
  "[file_path 1 ''sales.csv'' \<mapsto> Csv frame_tie] (file_path 1 ''sales.csv'') = Some (Csv frame_tie)
   \<and> validate (Csv frame_tie) = Inr frame_tie
   \<and> sequence (map to_datetime_iso (column frame_tie ''date''))
       = Inr [Timestamp 1704067200000000000, Timestamp 1704067200000000000]
   \<and> (\<exists>resp. get_historical_analysis to_datetime_iso strftime_ymd exact_column_ops
                 [file_path 1 ''sales.csv'' \<mapsto> Csv frame_tie] 1 ''sales.csv'' = Inr resp \<and>
              top_products resp = [(CStr ''A'', 5), (CStr ''B'', 5)] \<and>
              sorted_wrt ranks_before (top_products resp))
   \<and> [file_path 1 ''sales.csv'' \<mapsto> Csv frame_bad_dates] (file_path 1 ''sales.csv'')
       = Some (Csv frame_bad_dates)
   \<and> validate (Csv frame_bad_dates) = Inr frame_bad_dates
   \<and> sequence (map to_datetime_iso (column frame_bad_dates ''date'')) = Inl DateParseError
   \<and> get_historical_analysis to_datetime_iso strftime_ymd exact_column_ops
        [file_path 1 ''sales.csv'' \<mapsto> Csv frame_bad_dates] 1 ''sales.csv''
       = Inl (Unhandled DateParseError)"
proof -
  note t = top_products_ranking [where st = "[file_path 1 ''sales.csv'' \<mapsto> Csv frame_tie]"
      and uid = 1 and fname = "''sales.csv''" and content = "Csv frame_tie" and df = frame_tie
      and td = to_datetime_iso and strftime = strftime_ymd and ops = exact_column_ops
      and dates = "[Timestamp 1704067200000000000, Timestamp 1704067200000000000]",
      OF frame_tie_stored frame_tie_valid, unfolded frame_tie_ranked]
  from t frame_tie_dates have "\<exists>resp. get_historical_analysis to_datetime_iso strftime_ymd exact_column_ops
                 [file_path 1 ''sales.csv'' \<mapsto> Csv frame_tie] 1 ''sales.csv'' = Inr resp \<and>
              top_products resp = [(CStr ''A'', 5), (CStr ''B'', 5)] \<and>
              sorted_wrt ranks_before (top_products resp)"
    by blast
  moreover
  note u = top_products_ranking [where st = "[file_path 1 ''sales.csv'' \<mapsto> Csv frame_bad_dates]"
      and uid = 1 and fname = "''sales.csv''" and content = "Csv frame_bad_dates"
      and df = frame_bad_dates and td = to_datetime_iso and strftime = strftime_ymd and ops = exact_column_ops
      and e = DateParseError, OF bad_dates_stored bad_dates_valid]
  from u bad_dates_fail have
    "get_historical_analysis to_datetime_iso strftime_ymd exact_column_ops
        [file_path 1 ''sales.csv'' \<mapsto> Csv frame_bad_dates] 1 ''sales.csv''
       = Inl (Unhandled DateParseError)"
    by blast
  ultimately show ?thesis
    using frame_tie_stored frame_tie_valid frame_tie_dates
      bad_dates_stored bad_dates_valid bad_dates_fail
    by blast
qed

text \<open>
  The claim as it is written breaks ties by the order in which the data set first
  mentions the products. In the example file product B is stored before product A and
  both total 5; the analysis lists A before B.
\<close>

theorem top_products_tie_counterexample:
  "unique (column frame_tie ''product_id'') = [CStr ''B'', CStr ''A'']
   \<and> units_total exact_column_ops frame_tie (CStr ''A'') = units_total exact_column_ops frame_tie (CStr ''B'')
   \<and> (case get_historical_analysis to_datetime_iso strftime_ymd exact_column_ops
              [file_path 1 ''sales.csv'' \<mapsto> Csv frame_tie] 1 ''sales.csv'' of
         Inl e \<Rightarrow> False
       | Inr r \<Rightarrow> top_products r = [(CStr ''A'', 5), (CStr ''B'', 5)])"
proof -
  have "get_historical_analysis to_datetime_iso strftime_ymd exact_column_ops
          [file_path 1 ''sales.csv'' \<mapsto> Csv frame_tie] 1 ''sales.csv'' =
     Inr \<lparr>revenue_over_time =
            map (\<lambda>(d, v). (Formatted (strftime_ymd d), v))
              (groupby_sum exact_column_ops (\<lambda>t. t)
                 (zip (map datetime_key [Timestamp 1704067200000000000, Timestamp 1704067200000000000])
                    (map (row_revenue exact_column_ops) (rows frame_tie)))),
          top_products = [(CStr ''A'', 5), (CStr ''B'', 5)]\<rparr>"
    using analysis_of_valid [where st = "[file_path 1 ''sales.csv'' \<mapsto> Csv frame_tie]"
      and uid = 1 and fname = "''sales.csv''" and content = "Csv frame_tie" and df = frame_tie
      and td = to_datetime_iso and strftime = strftime_ymd and ops = exact_column_ops,
      OF frame_tie_stored frame_tie_valid frame_tie_dates]
    unfolding groupby_sum_products nlargest_def frame_tie_ranked .
  then have "case get_historical_analysis to_datetime_iso strftime_ymd exact_column_ops
              [file_path 1 ''sales.csv'' \<mapsto> Csv frame_tie] 1 ''sales.csv'' of
         Inl e \<Rightarrow> False
       | Inr r \<Rightarrow> top_products r = [(CStr ''A'', 5), (CStr ''B'', 5)]"
    by simp
  with frame_tie_encounter frame_tie_totals show ?thesis
    by simp
qed

end
